theory Spec2Isabelle
  imports Complex_Main "HOL-Library.Sublist"
begin

section \<open>Python strings\<close>

text \<open>
  A Python \<open>str\<close> is a sequence of Unicode code points, so \<open>len\<close>, slicing, the
  \<open>in\<close> test and the regular expressions of the program all count code points.
  A string is modelled as the list of its code points; \<open>S ''abc''\<close> writes an ASCII
  literal. The test \<open>sub in s\<close> is \<open>sublist sub s\<close> of the library.
  Case conversion (\<open>str.upper\<close>, \<open>str.lower\<close>) is modelled on the ASCII letters,
  which are the only cased characters of the keywords, templates and patterns of the program.
\<close>

type_synonym pystr = "nat list"

abbreviation S :: "string \<Rightarrow> pystr" where
  "S s \<equiv> map of_char s"

abbreviation NL :: pystr where
  "NL \<equiv> [10]"

abbreviation QUOTE :: pystr where
  "QUOTE \<equiv> [39]"

abbreviation str_in :: "pystr \<Rightarrow> pystr \<Rightarrow> bool" where
  "str_in sub s \<equiv> sublist sub s"

definition upper_cp :: "nat \<Rightarrow> nat" where
  "upper_cp c = (if 97 \<le> c \<and> c \<le> 122 then c - 32 else c)"

definition lower_cp :: "nat \<Rightarrow> nat" where
  "lower_cp c = (if 65 \<le> c \<and> c \<le> 90 then c + 32 else c)"

definition py_upper :: "pystr \<Rightarrow> pystr" where
  "py_upper s = map upper_cp s"

definition py_lower :: "pystr \<Rightarrow> pystr" where
  "py_lower s = map lower_cp s"

text \<open>The code points for which \<open>str.isspace\<close> holds: what \<open>str.strip\<close> removes.\<close>

definition py_isspace :: "nat \<Rightarrow> bool" where
  "py_isspace c =
     ((9 \<le> c \<and> c \<le> 13) \<or> (28 \<le> c \<and> c \<le> 32) \<or> c = 0x85 \<or> c = 0xA0 \<or> c = 0x1680
      \<or> (0x2000 \<le> c \<and> c \<le> 0x200A) \<or> c = 0x2028 \<or> c = 0x2029 \<or> c = 0x202F
      \<or> c = 0x205F \<or> c = 0x3000)"

definition py_strip :: "pystr \<Rightarrow> pystr" where
  "py_strip s = rev (dropWhile py_isspace (rev (dropWhile py_isspace s)))"

text \<open>\<open>s.count(sub)\<close>: the number of non-overlapping occurrences, scanning from the left.\<close>

function str_count :: "pystr \<Rightarrow> pystr \<Rightarrow> nat" where
  "str_count s sub =
     (if sub = [] then length s + 1
      else if s = [] then 0
      else if prefix sub s then 1 + str_count (drop (length sub) s) sub
      else str_count (tl s) sub)"
  by pat_completeness auto
termination
  by (relation "measure (\<lambda>(s, sub). length s)") auto

declare str_count.simps [simp del]

text \<open>\<open>sep.join(xs)\<close>.\<close>

fun py_join :: "pystr \<Rightarrow> pystr list \<Rightarrow> pystr" where
  "py_join sep [] = []"
| "py_join sep [x] = x"
| "py_join sep (x # y # ys) = x @ sep @ py_join sep (y # ys)"

text \<open>
  The text after, and the text before, the leftmost occurrence of a pattern; \<open>None\<close> when
  the pattern does not occur.
\<close>

fun find_after :: "pystr \<Rightarrow> pystr \<Rightarrow> pystr option" where
  "find_after pat [] = (if pat = [] then Some [] else None)"
| "find_after pat (x # xs) =
     (if prefix pat (x # xs) then Some (drop (length pat) (x # xs)) else find_after pat xs)"

fun find_before :: "pystr \<Rightarrow> pystr \<Rightarrow> pystr option" where
  "find_before pat [] = (if pat = [] then Some [] else None)"
| "find_before pat (x # xs) =
     (if prefix pat (x # xs) then Some [] else map_option ((#) x) (find_before pat xs))"


section \<open>Data model (models.py)\<close>

datatype QueryType = TREND | COMPARISON | RANKING | STATISTICS | PROPORTION

fun QueryType_value :: "QueryType \<Rightarrow> pystr" where
  "QueryType_value TREND = S ''trend''"
| "QueryType_value COMPARISON = S ''comparison''"
| "QueryType_value RANKING = S ''ranking''"
| "QueryType_value STATISTICS = S ''statistics''"
| "QueryType_value PROPORTION = S ''proportion''"

datatype ChartType = LINE | BAR | PIE | NUMBER | TABLE

text \<open>
  A filter value is \<open>Any\<close> in the source, which only asks whether it is a \<open>str\<close> and
  formats it into the clause: \<open>FStr v\<close> is a string value, \<open>FOther t\<close> a value of another
  type whose formatted text is \<open>t\<close>.
\<close>

datatype filter_value = FStr pystr | FOther pystr

text \<open>
  Floats of the source are modelled by exact rationals: every float constant of the program
  is a short decimal, and the properties below compare the results with such constants.
\<close>

record QueryIntent =
  query_type :: QueryType
  entities :: "pystr list"
  time_range :: "pystr option"
  dimensions :: "pystr list"
  metrics :: "pystr list"
  filters :: "(pystr \<times> filter_value) list"
  confidence :: rat

record SQLQuery =
  sql :: pystr
  parameters :: "(pystr \<times> filter_value) list"
  estimated_cost :: "int option"
  safety_score :: rat

record QueryError_fields =
  error_type :: pystr
  error_message :: pystr
  user_friendly_message :: pystr
  suggestions :: "pystr list"

text \<open>
  An exception is either a \<open>QueryError\<close> of the program or any other exception, of which
  only the message \<open>str(e)\<close> is kept.
\<close>

datatype py_exception = Exception pystr | QueryError QueryError_fields

definition new_QueryError :: "pystr \<Rightarrow> pystr \<Rightarrow> pystr \<Rightarrow> pystr list \<Rightarrow> QueryError_fields" where
  "new_QueryError etype message friendly sugg =
     \<lparr>error_type = etype, error_message = message,
      user_friendly_message = (if friendly = [] then message else friendly),
      suggestions = sugg\<rparr>"

fun exception_str :: "py_exception \<Rightarrow> pystr" where
  "exception_str (Exception m) = m"
| "exception_str (QueryError q) = error_message q"

text \<open>The schema descriptor: a dict read with \<open>.get\<close>, so each key may be missing.\<close>

record schema_info =
  main_table :: "pystr option"
  columns :: "pystr list option"


section \<open>SQL generator (sql\_generator.py)\<close>

definition dangerous_keywords :: "pystr list" where
  "dangerous_keywords =
     [S ''DROP'', S ''DELETE'', S ''TRUNCATE'', S ''ALTER'', S ''CREATE'', S ''INSERT'',
      S ''UPDATE'', S ''EXEC'', S ''EXECUTE'', S ''GRANT'', S ''REVOKE'']"

subsection \<open>Templates and \<open>str.format\<close>\<close>

text \<open>
  A template is the format string cut at its replacement fields: literal text and named
  fields. \<open>format\<close> raises \<open>KeyError\<close> for a field that the parameters do not give.
\<close>

datatype seg = Lit pystr | Field pystr

fun format :: "seg list \<Rightarrow> (pystr \<times> pystr) list \<Rightarrow> py_exception + pystr" where
  "format [] params = Inr []"
| "format (Lit t # r) params =
     (case format r params of Inl e \<Rightarrow> Inl e | Inr rest \<Rightarrow> Inr (t @ rest))"
| "format (Field k # r) params =
     (case map_of params k of
        None \<Rightarrow> Inl (Exception (QUOTE @ k @ QUOTE))
      | Some v \<Rightarrow> (case format r params of Inl e \<Rightarrow> Inl e | Inr rest \<Rightarrow> Inr (v @ rest)))"

definition template_trend :: "seg list" where
  "template_trend =
     [Lit (NL @ S ''            SELECT ''),
      Field (S ''time_dimension''),
      Lit (S '', ''),
      Field (S ''metrics''),
      Lit (NL @ S ''            FROM ''),
      Field (S ''table''),
      Lit (NL @ S ''            WHERE ''),
      Field (S ''time_filter''),
      Lit (NL @ S ''            GROUP BY ''),
      Field (S ''time_dimension''),
      Lit (NL @ S ''            ORDER BY ''),
      Field (S ''time_dimension''),
      Lit (NL @ S ''            '')]"

definition template_comparison :: "seg list" where
  "template_comparison =
     [Lit (NL @ S ''            SELECT ''),
      Field (S ''dimensions''),
      Lit (S '', ''),
      Field (S ''metrics''),
      Lit (NL @ S ''            FROM ''),
      Field (S ''table''),
      Lit (NL @ S ''            WHERE ''),
      Field (S ''filters''),
      Lit (NL @ S ''            GROUP BY ''),
      Field (S ''dimensions''),
      Lit (NL @ S ''            ORDER BY ''),
      Field (S ''metrics''),
      Lit (S '' DESC'' @ NL @ S ''            '')]"

definition template_ranking :: "seg list" where
  "template_ranking =
     [Lit (NL @ S ''            SELECT ''),
      Field (S ''dimensions''),
      Lit (S '', ''),
      Field (S ''metrics''),
      Lit (NL @ S ''            FROM ''),
      Field (S ''table''),
      Lit (NL @ S ''            WHERE ''),
      Field (S ''filters''),
      Lit (NL @ S ''            GROUP BY ''),
      Field (S ''dimensions''),
      Lit (NL @ S ''            ORDER BY ''),
      Field (S ''metrics''),
      Lit (S '' DESC'' @ NL @ S ''            LIMIT ''),
      Field (S ''limit''),
      Lit (NL @ S ''            '')]"

definition template_statistics :: "seg list" where
  "template_statistics =
     [Lit (NL @ S ''            SELECT '' @ NL @ S ''                COUNT(*) as total_count,'' @ NL @ S ''                AVG(''),
      Field (S ''metric''),
      Lit (S '') as avg_value,'' @ NL @ S ''                SUM(''),
      Field (S ''metric''),
      Lit (S '') as sum_value,'' @ NL @ S ''                MAX(''),
      Field (S ''metric''),
      Lit (S '') as max_value,'' @ NL @ S ''                MIN(''),
      Field (S ''metric''),
      Lit (S '') as min_value'' @ NL @ S ''            FROM ''),
      Field (S ''table''),
      Lit (NL @ S ''            WHERE ''),
      Field (S ''filters''),
      Lit (NL @ S ''            '')]"

definition template_proportion :: "seg list" where
  "template_proportion =
     [Lit (NL @ S ''            SELECT '' @ NL @ S ''                ''),
      Field (S ''dimension''),
      Lit (S '','' @ NL @ S ''                ''),
      Field (S ''metric''),
      Lit (S '','' @ NL @ S ''                ROUND(''),
      Field (S ''metric''),
      Lit (S '' * 100.0 / SUM(''),
      Field (S ''metric''),
      Lit (S '') OVER (), 2) as percentage'' @ NL @ S ''            FROM ''),
      Field (S ''table''),
      Lit (NL @ S ''            WHERE ''),
      Field (S ''filters''),
      Lit (NL @ S ''            GROUP BY ''),
      Field (S ''dimension''),
      Lit (NL @ S ''            ORDER BY ''),
      Field (S ''metric''),
      Lit (S '' DESC'' @ NL @ S ''            '')]"

definition sql_templates :: "(pystr \<times> seg list) list" where
  "sql_templates =
     [(S ''trend'', template_trend),
      (S ''comparison'', template_comparison),
      (S ''ranking'', template_ranking),
      (S ''statistics'', template_statistics),
      (S ''proportion'', template_proportion)]"


subsection \<open>Mapping the intent to the schema\<close>

text \<open>
  For each entity the first column that contains it, or is contained in it, ignoring case
  (the inner loop ends at \<open>break\<close>); entities with no such column are dropped.
\<close>

fun map_entities_to_columns :: "pystr list \<Rightarrow> pystr list \<Rightarrow> pystr list" where
  "map_entities_to_columns [] available_columns = []"
| "map_entities_to_columns (entity # rest) available_columns =
     (let entity_lower = py_lower entity in
      case find (\<lambda>column. str_in entity_lower (py_lower column)
                        \<or> str_in (py_lower column) entity_lower) available_columns of
        Some column \<Rightarrow> column # map_entities_to_columns rest available_columns
      | None \<Rightarrow> map_entities_to_columns rest available_columns)"

fun where_condition :: "pystr \<times> filter_value \<Rightarrow> pystr" where
  "where_condition (key, FStr v) = key @ S '' LIKE '' @ QUOTE @ S ''%'' @ v @ S ''%'' @ QUOTE"
| "where_condition (key, FOther t) = key @ S '' = '' @ t"

definition build_where_conditions :: "(pystr \<times> filter_value) list \<Rightarrow> pystr list \<Rightarrow> pystr" where
  "build_where_conditions fs available_columns =
     (if fs = [] then S ''1=1''
      else py_join (S '' AND '') (map where_condition fs))"

definition time_filters :: "pystr \<Rightarrow> (pystr \<times> pystr) list" where
  "time_filters time_column =
     [(S ''today'', time_column @ S '' >= CURRENT_DATE''),
      (S ''yesterday'',
         time_column @ S '' >= CURRENT_DATE - INTERVAL '' @ QUOTE @ S ''1 day'' @ QUOTE
         @ S '' AND '' @ time_column @ S '' < CURRENT_DATE''),
      (S ''this week'',
         time_column @ S '' >= DATE_TRUNC('' @ QUOTE @ S ''week'' @ QUOTE @ S '', CURRENT_DATE)''),
      (S ''last week'',
         time_column @ S '' >= DATE_TRUNC('' @ QUOTE @ S ''week'' @ QUOTE
         @ S '', CURRENT_DATE - INTERVAL '' @ QUOTE @ S ''1 week'' @ QUOTE @ S '') AND ''
         @ time_column @ S '' < DATE_TRUNC('' @ QUOTE @ S ''week'' @ QUOTE @ S '', CURRENT_DATE)''),
      (S ''this month'',
         time_column @ S '' >= DATE_TRUNC('' @ QUOTE @ S ''month'' @ QUOTE @ S '', CURRENT_DATE)''),
      (S ''last month'',
         time_column @ S '' >= DATE_TRUNC('' @ QUOTE @ S ''month'' @ QUOTE
         @ S '', CURRENT_DATE - INTERVAL '' @ QUOTE @ S ''1 month'' @ QUOTE @ S '') AND ''
         @ time_column @ S '' < DATE_TRUNC('' @ QUOTE @ S ''month'' @ QUOTE @ S '', CURRENT_DATE)'')]"

definition build_time_filter :: "pystr option \<Rightarrow> pystr list \<Rightarrow> pystr" where
  "build_time_filter time_range' available_columns =
     (case time_range' of
        None \<Rightarrow> S ''1=1''
      | Some tr \<Rightarrow>
          if tr = [] then S ''1=1''
          else
            (case find (\<lambda>column. list_ex (\<lambda>time_keyword. str_in time_keyword (py_lower column))
                                   [S ''date'', S ''time'', S ''created'', S ''updated''])
                       available_columns of
               None \<Rightarrow> S ''1=1''
             | Some time_column \<Rightarrow>
                 if time_column = [] then S ''1=1''
                 else (case map_of (time_filters time_column) (py_lower tr) of
                         Some clause \<Rightarrow> clause
                       | None \<Rightarrow> S ''1=1'')))"

definition get_time_dimension :: "pystr list \<Rightarrow> pystr" where
  "get_time_dimension available_columns =
     (case find (\<lambda>column. list_ex (\<lambda>time_keyword. str_in time_keyword (py_lower column))
                            [S ''date'', S ''time'', S ''created''])
                available_columns of
        Some column \<Rightarrow> column
      | None \<Rightarrow> S ''created_at'')"

text \<open>
  \<open>a or b\<close> on strings: \<open>a\<close> unless it is empty.
\<close>

definition str_or :: "pystr \<Rightarrow> pystr \<Rightarrow> pystr" where
  "str_or a b = (if a = [] then b else a)"

text \<open>The dict \<open>sql_params\<close> that \<open>_generate_template_sql\<close> builds and passes to \<open>format\<close>.\<close>

definition sql_params :: "QueryIntent \<Rightarrow> schema_info \<Rightarrow> (pystr \<times> pystr) list" where
  "sql_params intent schema =
     (let main_table' = (case main_table schema of Some t \<Rightarrow> t | None \<Rightarrow> S ''data_table'');
          available_columns = (case columns schema of Some cs \<Rightarrow> cs | None \<Rightarrow> []);
          dims = map_entities_to_columns (dimensions intent) available_columns;
          mets = map_entities_to_columns (metrics intent) available_columns;
          fs = build_where_conditions (filters intent) available_columns;
          time_filter = build_time_filter (time_range intent) available_columns
      in [(S ''table'', main_table'),
          (S ''dimensions'', if dims \<noteq> [] then py_join (S '', '') dims else S ''1''),
          (S ''metrics'', if mets \<noteq> [] then py_join (S '', '') mets else S ''COUNT(*)''),
          (S ''metric'', if mets \<noteq> [] then hd mets else S ''sales_amount''),
          (S ''dimension'', if dims \<noteq> [] then hd dims else S ''category''),
          (S ''time_dimension'', get_time_dimension available_columns),
          (S ''filters'', str_or fs (S ''1=1'')),
          (S ''time_filter'', str_or time_filter (S ''1=1'')),
          (S ''limit'', S ''10'')])"

definition generate_template_sql :: "QueryIntent \<Rightarrow> schema_info \<Rightarrow> py_exception + pystr" where
  "generate_template_sql intent schema =
     (let qt = QueryType_value (query_type intent);
          template = (case map_of sql_templates qt of
                        Some t \<Rightarrow> t | None \<Rightarrow> template_statistics)
      in case format template (sql_params intent schema) of
           Inl e \<Rightarrow> Inl e
         | Inr text \<Rightarrow> Inr (py_strip text))"

subsection \<open>Safety check and cost estimate\<close>

text \<open>
  \<open>sqlparse\<close> is a library outside the program, so the parser is a parameter: it raises,
  or returns the statements, each as its flattened tokens with the two attributes the check
  reads.
\<close>

datatype tokentype = Keyword_DML | Other_tokentype

record token =
  ttype :: tokentype
  tvalue :: pystr
  is_whitespace :: bool

type_synonym sqlparse = "pystr \<Rightarrow> py_exception + token list list"

text \<open>
  \<open>re.search(r"['\"];|--|/\*|\*/", sql)\<close> finds a match exactly when one of the five
  literal alternatives occurs in the text.
\<close>

definition injection_risk :: "pystr \<Rightarrow> bool" where
  "injection_risk s =
     (str_in (QUOTE @ S '';'') s \<or> str_in ([34] @ S '';'') s \<or> str_in (S ''--'') s
      \<or> str_in (S ''/*'') s \<or> str_in (S ''*/'') s)"

definition check_sql_safety :: "sqlparse \<Rightarrow> pystr \<Rightarrow> py_exception + rat" where
  "check_sql_safety parse s =
     (let sql_upper = py_upper s in
      if list_ex (\<lambda>keyword. str_in keyword sql_upper) dangerous_keywords then Inr 0
      else
        (case parse s of
           Inl e \<Rightarrow> Inl e
         | Inr [] \<Rightarrow> Inr (3 / 10)
         | Inr (first_statement # _) \<Rightarrow>
             (let tokens = filter (\<lambda>t. \<not> is_whitespace t) first_statement in
              if tokens = [] \<or> ttype (hd tokens) \<noteq> Keyword_DML
                 \<or> py_upper (tvalue (hd tokens)) \<noteq> S ''SELECT''
              then Inr (2 / 10)
              else
                (let score0 = 9 / 10;
                     score1 = (if injection_risk s then score0 - 3 / 10 else score0);
                     score2 = (if str_count s (S ''SELECT'') > 3 then score1 - 1 / 10 else score1)
                 in Inr (max 0 score2)))))"

definition estimate_query_cost :: "pystr \<Rightarrow> schema_info \<Rightarrow> int" where
  "estimate_query_cost s schema =
     (let base_cost = 1;
          join_count = int (str_count (py_upper s) (S ''JOIN''));
          base_cost = base_cost + join_count * 2;
          subquery_count = int (str_count s (S ''SELECT'')) - 1;
          base_cost = base_cost + subquery_count * 3
      in foldl (\<lambda>cost pattern. if str_in pattern (py_upper s) then cost + 1 else cost)
               base_cost
               [S ''GROUP BY'', S ''ORDER BY'', S ''DISTINCT'', S ''UNION''])"

subsection \<open>The optional rewriting by the completion service\<close>

text \<open>
  The completion service is outside the program: \<open>reply\<close> is the text of its answer, or
  \<open>None\<close> when the request raised. \<open>extract_sql_block\<close> is group 1 of the search for
  a fenced \<open>sql\<close> block, whose body is the shortest one (the group is lazy and the dot
  matches newlines).
\<close>

definition extract_sql_block :: "pystr \<Rightarrow> pystr option" where
  "extract_sql_block content =
     (case find_after (S ''```sql'' @ NL) content of
        None \<Rightarrow> None
      | Some rest \<Rightarrow> find_before (NL @ S ''```'') rest)"

definition gpt_optimize_sql :: "sqlparse \<Rightarrow> pystr option \<Rightarrow> pystr \<Rightarrow> pystr" where
  "gpt_optimize_sql parse reply base_sql =
     (case reply of
        None \<Rightarrow> base_sql
      | Some raw \<Rightarrow>
          (let content = py_strip raw;
               optimized_sql = (case extract_sql_block content of
                                  Some body \<Rightarrow> py_strip body
                                | None \<Rightarrow> content)
           in case parse optimized_sql of
                Inl e \<Rightarrow> base_sql
              | Inr parsed \<Rightarrow> if parsed = [] then base_sql else optimized_sql))"

subsection \<open>\<open>generate_sql\<close>\<close>

definition msg_sql_dangerous :: pystr where
  "msg_sql_dangerous =
     [0x751F, 0x6210, 0x7684, 0x53, 0x51, 0x4C, 0x5305, 0x542B, 0x6F5C, 0x5728, 0x5371, 0x9669,
      0x64CD, 0x4F5C]"

definition msg_query_blocked :: pystr where
  "msg_query_blocked =
     [0x67E5, 0x8BE2, 0x5305, 0x542B, 0x4E0D, 0x5B89, 0x5168, 0x7684, 0x64CD, 0x4F5C, 0xFF0C,
      0x5DF2, 0x88AB, 0x963B, 0x6B62, 0x3002]"

definition msg_cannot_generate :: pystr where
  "msg_cannot_generate =
     [0x65E0, 0x6CD5, 0x4E3A, 0x60A8, 0x7684, 0x67E5, 0x8BE2, 0x751F, 0x6210, 0x6709, 0x6548,
      0x7684, 0x53, 0x51, 0x4C, 0x8BED, 0x53E5, 0xFF0C, 0x8BF7, 0x5C1D, 0x8BD5, 0x91CD, 0x65B0,
      0x63CF, 0x8FF0, 0x3002]"

text \<open>The body of the \<open>try\<close> block: what it returns, or the exception it raises.\<close>

definition generate_sql_try ::
  "sqlparse \<Rightarrow> pystr option \<Rightarrow> QueryIntent \<Rightarrow> schema_info \<Rightarrow> py_exception + SQLQuery" where
  "generate_sql_try parse reply intent schema =
     (case generate_template_sql intent schema of
        Inl e \<Rightarrow> Inl e
      | Inr template_sql \<Rightarrow>
          (let optimized_sql = gpt_optimize_sql parse reply template_sql in
           case check_sql_safety parse optimized_sql of
             Inl e \<Rightarrow> Inl e
           | Inr score \<Rightarrow>
               if score < 8 / 10
               then Inl (QueryError (new_QueryError (S ''SQL_SAFETY_ERROR'') msg_sql_dangerous
                                       msg_query_blocked []))
               else
                 (let cost = estimate_query_cost optimized_sql schema in
                  Inr \<lparr>sql = optimized_sql, parameters = [], estimated_cost = Some cost,
                       safety_score = score\<rparr>)))"

text \<open>
  \<open>except Exception as e\<close> catches whatever the body raised, a \<open>QueryError\<close> of the body
  included, and raises a new \<open>QueryError\<close> of type \<open>SQL_GENERATION_ERROR\<close>.
\<close>

definition generate_sql ::
  "sqlparse \<Rightarrow> pystr option \<Rightarrow> QueryIntent \<Rightarrow> schema_info \<Rightarrow> QueryError_fields + SQLQuery" where
  "generate_sql parse reply intent schema =
     (case generate_sql_try parse reply intent schema of
        Inr q \<Rightarrow> Inr q
      | Inl e \<Rightarrow> Inl (new_QueryError (S ''SQL_GENERATION_ERROR'') (exception_str e)
                        msg_cannot_generate []))"


section \<open>Regular expressions\<close>

text \<open>
  The patterns of the program use literal text, alternation at the top level, character
  sets, the lazy \<open>.*?\<close> and the greedy \<open>\d+\<close>, always with \<open>re.IGNORECASE\<close>. A pattern
  is the list of its alternatives, an alternative a sequence of items. Matching follows
  the backtracking order of Python's \<open>re\<close>: alternatives from left to right, \<open>.*?\<close> first
  without a character and then with one more (never a newline), \<open>\d+\<close> first with as
  many digits as there are. \<open>match_seq\<close> gives the text that remains after the match
  that this order finds at the start of the text.

  Under \<open>IGNORECASE\<close> a pattern character and a text character match when their lower
  cases agree; the code points outside ASCII that Python folds onto ASCII letters are
  U+0130 and U+0131 (i), U+017F (s) and U+212A (k). \<open>\d\<close> is modelled on the ASCII digits.
\<close>

datatype rx = Str pystr | OneOf "nat list" | AnyLazy | Digits

type_synonym pattern = "rx list list"

definition re_lower :: "nat \<Rightarrow> nat" where
  "re_lower c =
     (if c = 0x130 \<or> c = 0x131 then 105
      else if c = 0x17F then 115
      else if c = 0x212A then 107
      else lower_cp c)"

definition ieq :: "nat \<Rightarrow> nat \<Rightarrow> bool" where
  "ieq p c = (re_lower p = re_lower c)"

fun imatch :: "pystr \<Rightarrow> pystr \<Rightarrow> bool" where
  "imatch [] s = True"
| "imatch (p # ps) [] = False"
| "imatch (p # ps) (c # cs) = (ieq p c \<and> imatch ps cs)"

definition is_digit :: "nat \<Rightarrow> bool" where
  "is_digit c = (48 \<le> c \<and> c \<le> 57)"

fun match_seq :: "rx list \<Rightarrow> pystr \<Rightarrow> pystr option" where
  "match_seq [] s = Some s"
| "match_seq (Str t # r) s =
     (if imatch t s then match_seq r (drop (length t) s) else None)"
| "match_seq (OneOf cs # r) [] = None"
| "match_seq (OneOf cs # r) (c # s) =
     (if list_ex (\<lambda>p. ieq p c) cs then match_seq r s else None)"
| "match_seq (AnyLazy # r) [] = match_seq r []"
| "match_seq (AnyLazy # r) (c # s) =
     (case match_seq r (c # s) of
        Some rest \<Rightarrow> Some rest
      | None \<Rightarrow> if c = 10 then None else match_seq (AnyLazy # r) s)"
| "match_seq (Digits # r) [] = None"
| "match_seq (Digits # r) (c # s) =
     (if is_digit c
      then (case match_seq (Digits # r) s of
              Some rest \<Rightarrow> Some rest
            | None \<Rightarrow> match_seq r s)
      else None)"

fun match_alts :: "pattern \<Rightarrow> pystr \<Rightarrow> pystr option" where
  "match_alts [] s = None"
| "match_alts (a # alts) s =
     (case match_seq a s of Some rest \<Rightarrow> Some rest | None \<Rightarrow> match_alts alts s)"

text \<open>\<open>re.search\<close>: the text of the leftmost match, \<open>match.group()\<close>.\<close>

fun re_search :: "pattern \<Rightarrow> pystr \<Rightarrow> pystr option" where
  "re_search p [] = (case match_alts p [] of Some rest \<Rightarrow> Some [] | None \<Rightarrow> None)"
| "re_search p (c # s) =
     (case match_alts p (c # s) of
        Some rest \<Rightarrow> Some (take (length (c # s) - length rest) (c # s))
      | None \<Rightarrow> re_search p s)"

text \<open>
  \<open>len(re.findall(pattern, text))\<close>: the matches are found from left to right, each search
  starting where the last match ended. No pattern of the program matches the empty
  string; an empty match would be counted and the scan would move on by one character.
\<close>

function findall_count :: "pattern \<Rightarrow> pystr \<Rightarrow> nat" where
  "findall_count p s =
     (case match_alts p s of
        Some rest \<Rightarrow>
          if length rest < length s then 1 + findall_count p rest
          else (case s of [] \<Rightarrow> 1 | c # s' \<Rightarrow> 1 + findall_count p s')
      | None \<Rightarrow> (case s of [] \<Rightarrow> 0 | c # s' \<Rightarrow> findall_count p s'))"
  by pat_completeness auto
termination
  by (relation "measure (\<lambda>(p, s). length s)") auto

declare findall_count.simps [simp del]

text \<open>\<open>s.replace(old, new)\<close>.\<close>

function str_replace :: "pystr \<Rightarrow> pystr \<Rightarrow> pystr \<Rightarrow> pystr" where
  "str_replace s old new =
     (if old = [] then new @ concat (map (\<lambda>c. c # new) s)
      else if s = [] then []
      else if prefix old s then new @ str_replace (drop (length old) s) old new
      else hd s # str_replace (tl s) old new)"
  by pat_completeness auto
termination
  by (relation "measure (\<lambda>(s, old, new). length s)") auto

declare str_replace.simps [simp del]


section \<open>Intent parsing (nlp\_processor\_v2.py)\<close>

definition patterns_trend :: "pattern list" where
  "patterns_trend =
     [[[Str [0x8D8B, 0x52BF]], [Str [0x53D8, 0x5316]], [Str [0x589E, 0x957F]],
         [Str [0x4E0B, 0x964D]], [Str [0x8D70, 0x52BF]], [Str [0x53D1, 0x5C55]],
         [Str [0x6F14, 0x53D8]], [Str [0x6CE2, 0x52A8]], [Str [0x8D77, 0x4F0F]]],
      [[Str [0x8FC7, 0x53BB], AnyLazy, OneOf [0x6708, 0x5929, 0x5E74]],
         [Str [0x6700, 0x8FD1], AnyLazy, OneOf [0x6708, 0x5929, 0x5E74]],
         [AnyLazy, Str [0x671F, 0x95F4]], [Str [0x5386, 0x53F2]], [Str [0x65F6, 0x95F4]],
         [Str [0x53D8, 0x8FC1]]],
      [[Str [0x589E, 0x957F, 0x7387]], [Str [0x53D8, 0x5316, 0x7387]], [Str [0x540C, 0x6BD4]],
         [Str [0x73AF, 0x6BD4]], [Str [0x6DA8, 0x5E45]], [Str [0x8DCC, 0x5E45]],
         [Str [0x589E, 0x901F]], [Str [0x964D, 0x901F]]],
      [[Str [0x8FDE, 0x7EED]], [Str [0x6301, 0x7EED]], [Str [0x9010, 0x5E74]],
         [Str [0x9010, 0x6708]], [Str [0x9010, 0x65E5]], [Str [0x5E74, 0x5EA6]],
         [Str [0x6708, 0x5EA6]], [Str [0x65E5, 0x5EA6]]]]"

definition patterns_comparison :: "pattern list" where
  "patterns_comparison =
     [[[Str [0x5BF9, 0x6BD4]], [Str [0x6BD4, 0x8F83]], [Str [0x76F8, 0x6BD4]],
         [Str (S ''vs'')], [Str (S ''versus'')], [Str [0x5BF9, 0x7167]], [Str (S ''PK'')],
         [Str [0x6BD4, 0x62FC]]],
      [[Str [0x54EA, 0x4E2A], AnyLazy, OneOf [0x597D, 0x9AD8, 0x591A, 0x5927, 0x5C0F, 0x4F18, 0x52A3, 0x5F3A, 0x5F31]],
         [Str [0x8C01], AnyLazy, OneOf [0x597D, 0x9AD8, 0x591A, 0x5927, 0x5C0F, 0x4F18, 0x52A3, 0x5F3A, 0x5F31]]],
      [[Str [0x5DEE, 0x5F02]], [Str [0x533A, 0x522B]], [Str [0x5DEE, 0x522B]],
         [Str [0x4E0D, 0x540C]], [Str [0x4F18, 0x52A3]], [Str [0x5F3A, 0x5F31]],
         [Str [0x9AD8, 0x4F4E]]],
      [[Str [0x5404], AnyLazy, Str [0x4E4B, 0x95F4]], [AnyLazy, Str [0x548C], AnyLazy],
         [AnyLazy, Str [0x4E0E], AnyLazy], [AnyLazy, Str [0x8DDF], AnyLazy]]]"

definition patterns_ranking :: "pattern list" where
  "patterns_ranking =
     [[[Str [0x6392, 0x540D]], [Str [0x6392, 0x884C]], [Str (S ''TOP'')],
         [Str [0x524D], AnyLazy, Str [0x540D]], [Str [0x6700], AnyLazy, Str [0x7684]],
         [Str [0x7B2C], AnyLazy, Str [0x540D]], [Str [0x4F4D, 0x5217]]],
      [[Str [0x7B2C], OneOf [0x4E00, 0x4E8C, 0x4E09, 0x56DB, 0x4E94, 0x516D, 0x4E03, 0x516B, 0x4E5D, 0x5341, 49, 50, 51, 52, 53, 54, 55, 56, 57]],
         [Str [0x6700], OneOf [0x9AD8, 0x4F4E, 0x5927, 0x5C0F, 0x591A, 0x5C11, 0x597D, 0x574F, 0x4F18, 0x52A3, 0x5F3A, 0x5F31]]],
      [[Str [0x51A0, 0x519B]], [Str [0x4E9A, 0x519B]], [Str [0x5B63, 0x519B]],
         [Str [0x699C, 0x9996]], [Str [0x672B, 0x4F4D]], [Str [0x9996, 0x4F4D]],
         [Str [0x5012, 0x6570]]],
      [[Str [0x6392, 0x5E8F]], [Str [0x6392, 0x5217]], [Str [0x540D, 0x6B21]],
         [Str [0x5EA7, 0x6B21]], [Str [0x4F4D, 0x6B21]]]]"

definition patterns_statistics :: "pattern list" where
  "patterns_statistics =
     [[[Str [0x603B], AnyLazy], [Str [0x5E73, 0x5747]], [Str [0x5E73, 0x5747, 0x503C]],
         [Str [0x603B, 0x548C]], [Str [0x603B, 0x8BA1]], [Str [0x5408, 0x8BA1]],
         [Str [0x6C47, 0x603B]]],
      [[Str [0x7EDF, 0x8BA1]], [Str [0x6C47, 0x603B]], [Str [0x6982, 0x51B5]],
         [Str [0x60C5, 0x51B5]], [Str [0x6570, 0x636E]], [Str [0x6307, 0x6807]],
         [Str [0x6982, 0x89C8]]],
      [[Str [0x6570, 0x91CF]], [Str [0x4E2A, 0x6570]], [Str [0x603B, 0x6570]],
         [Str [0x8BA1, 0x6570]], [Str [0x6C42, 0x548C]], [Str [0x7D2F, 0x8BA1]]],
      [[Str [0x6700, 0x5927, 0x503C]], [Str [0x6700, 0x5C0F, 0x503C]], [Str [0x6700, 0x9AD8]],
         [Str [0x6700, 0x4F4E]], [Str [0x6781, 0x503C]], [Str [0x5747, 0x503C, 0x591A, 0x5C11]],
         [Str [0x51E0, 0x4E2A]], [Str [0x6570, 0x91CF]], [Str [0x603B, 0x6570]]]]"

definition patterns_proportion :: "pattern list" where
  "patterns_proportion =
     [[[Str [0x5360, 0x6BD4]], [Str [0x6BD4, 0x4F8B]], [Str [0x767E, 0x5206, 0x6BD4]],
         [Str [0x4EFD, 0x989D]], [Str [0x5360, 0x636E]]],
      [[Str [0x5206, 0x5E03]], [Str [0x6784, 0x6210]], [Str [0x7EC4, 0x6210]],
         [Str [0x6BD4, 0x91CD]], [Str [0x6743, 0x91CD]]],
      [[Str (S ''%'')], [Str (S ''percent'')], [Str [0x6BD4, 0x7387]]]]"

definition time_patterns :: "pattern list" where
  "time_patterns =
     [[[Str (S ''past ''), Digits, Str (S '' month'')]],
      [[Str (S ''last ''), Digits, Str (S '' month'')]],
      [[Str (S ''recent ''), Digits, Str (S '' month'')]],
      [[Str (S ''today'')]],
      [[Str (S ''yesterday'')]],
      [[Str (S ''this week'')]],
      [[Str (S ''last week'')]],
      [[Str (S ''this month'')]],
      [[Str (S ''last month'')]],
      [[Str (S ''this year'')]],
      [[Str (S ''last year'')]]]"

definition business_entities :: "(pystr \<times> pystr list) list" where
  "business_entities =
     [([0x90E8, 0x95E8],
         [[0x90E8, 0x95E8], [0x79D1, 0x5BA4], [0x5206, 0x516C, 0x53F8],
          [0x4E8B, 0x4E1A, 0x90E8], [0x4E2D, 0x5FC3]]),
      ([0x4EA7, 0x54C1],
         [[0x4EA7, 0x54C1], [0x5546, 0x54C1], [0x670D, 0x52A1], [0x9879, 0x76EE],
          [0x65B9, 0x6848]]),
      ([0x5BA2, 0x6237],
         [[0x5BA2, 0x6237], [0x7528, 0x6237], [0x6D88, 0x8D39, 0x8005], [0x4E70, 0x5BB6],
          [0x987E, 0x5BA2]]),
      ([0x5458, 0x5DE5],
         [[0x5458, 0x5DE5], [0x4EBA, 0x5458], [0x804C, 0x5458],
          [0x5DE5, 0x4F5C, 0x4EBA, 0x5458], [0x56E2, 0x961F]]),
      ([0x5730, 0x533A],
         [[0x5730, 0x533A], [0x533A, 0x57DF], [0x57CE, 0x5E02], [0x7701, 0x4EFD],
          [0x5E02, 0x573A]])]"

definition business_metrics :: "pystr list" where
  "business_metrics =
     [[0x9500, 0x552E, 0x989D], [0x8425, 0x4E1A, 0x989D], [0x6536, 0x5165], [0x5229, 0x6DA6],
      [0x6210, 0x672C], [0x8D39, 0x7528], [0x4E1A, 0x7EE9], [0x7EE9, 0x6548],
      [0x589E, 0x957F, 0x7387], [0x5360, 0x6BD4], [0x4EFD, 0x989D], [0x6570, 0x91CF],
      [0x5355, 0x4EF7], [0x5BA2, 0x5355, 0x4EF7], [0x8F6C, 0x5316, 0x7387],
      [0x7559, 0x5B58, 0x7387], [0x6D3B, 0x8DC3, 0x5EA6]]"

definition dimension_words :: "pystr list" where
  "dimension_words =
     [[0x90E8, 0x95E8], [0x5730, 0x533A], [0x4EA7, 0x54C1], [0x6E20, 0x9053], [0x5BA2, 0x6237],
      [0x65F6, 0x95F4]]"

definition metric_words :: "pystr list" where
  "metric_words =
     [[0x9500, 0x552E, 0x989D], [0x6536, 0x5165], [0x5229, 0x6DA6], [0x6570, 0x91CF],
      [0x5BA2, 0x6237, 0x6570], [0x7528, 0x6237, 0x6570]]"

definition business_keywords :: "pystr list" where
  "business_keywords =
     [[0x9500, 0x552E], [0x4E1A, 0x7EE9], [0x6570, 0x636E], [0x5206, 0x6790], [0x7EDF, 0x8BA1],
      [0x5BF9, 0x6BD4], [0x8D8B, 0x52BF], [0x8425, 0x6536], [0x5229, 0x6DA6], [0x6210, 0x672C],
      [0x5BA2, 0x6237], [0x4EA7, 0x54C1], [0x90E8, 0x95E8], [0x5730, 0x533A]]"

definition time_mappings :: "(pystr \<times> pystr) list" where
  "time_mappings =
     [([0x4ECA, 0x5929], S ''today''), ([0x6628, 0x5929], S ''yesterday''),
      ([0x660E, 0x5929], S ''tomorrow''), ([0x672C, 0x5468], S ''this week''),
      ([0x4E0A, 0x5468], S ''last week''), ([0x4E0B, 0x5468], S ''next week''),
      ([0x672C, 0x6708], S ''this month''), ([0x4E0A, 0x6708], S ''last month''),
      ([0x4E0B, 0x6708], S ''next month''), ([0x4ECA, 0x5E74], S ''this year''),
      ([0x53BB, 0x5E74], S ''last year''), ([0x660E, 0x5E74], S ''next year''),
      ([0x6700, 0x8FD1], S ''recent''), ([0x8FC7, 0x53BB], S ''past'')]"


definition query_patterns :: "(pystr \<times> pattern list) list" where
  "query_patterns =
     [(S ''trend'', patterns_trend),
      (S ''comparison'', patterns_comparison),
      (S ''ranking'', patterns_ranking),
      (S ''statistics'', patterns_statistics),
      (S ''proportion'', patterns_proportion)]"

text \<open>\<open>QueryType(value)\<close>: the member with that value, \<open>ValueError\<close> when there is none.\<close>

definition QueryType_of_value :: "pystr \<Rightarrow> py_exception + QueryType" where
  "QueryType_of_value v =
     (case map_of [(S ''trend'', TREND), (S ''comparison'', COMPARISON), (S ''ranking'', RANKING),
                   (S ''statistics'', STATISTICS), (S ''proportion'', PROPORTION)] v of
        Some t \<Rightarrow> Inr t
      | None \<Rightarrow> Inl (Exception (QUOTE @ v @ QUOTE @ S '' is not a valid QueryType'')))"

subsection \<open>Preprocessing\<close>

text \<open>\<open>re.sub(r'\s+', ' ', text)\<close>: every maximal run of whitespace becomes one space.\<close>

function collapse_whitespace :: "pystr \<Rightarrow> pystr" where
  "collapse_whitespace [] = []"
| "collapse_whitespace (c # s) =
     (if py_isspace c then 32 # collapse_whitespace (dropWhile py_isspace s)
      else c # collapse_whitespace s)"
  by pat_completeness auto
termination
  by (relation "measure length") (auto simp: le_imp_less_Suc length_dropWhile_le)

definition punctuation :: "nat list" where
  "punctuation =
     [0xFF0C, 0x3002, 0xFF01, 0xFF1F, 0xFF1B, 0xFF1A, 34, 34, 0xFF08, 0xFF09, 0x3010, 0x3011]"

definition preprocess_query :: "pystr \<Rightarrow> pystr" where
  "preprocess_query query =
     (let query = collapse_whitespace (py_strip query);
          query = filter (\<lambda>c. c \<notin> set punctuation) query
      in foldl (\<lambda>q (chinese, english). str_replace q chinese english) query time_mappings)"

subsection \<open>Pattern classification\<close>

definition pattern_score :: "pattern list \<Rightarrow> pystr \<Rightarrow> nat" where
  "pattern_score patterns query =
     foldl (\<lambda>score pattern. score + findall_count pattern query) 0 patterns"

text \<open>
  \<open>max(items, key=...)\<close> keeps the first item whose key is maximal: a later item replaces
  the best one only when its key is strictly larger.
\<close>

fun py_max_by :: "('a \<Rightarrow> nat) \<Rightarrow> 'a \<Rightarrow> 'a list \<Rightarrow> 'a" where
  "py_max_by key best [] = best"
| "py_max_by key best (x # xs) = py_max_by key (if key x > key best then x else best) xs"

definition type_scores :: "pystr \<Rightarrow> (pystr \<times> nat) list" where
  "type_scores query =
     map (\<lambda>(qt, patterns). (qt, pattern_score patterns query)) query_patterns"

definition pattern_classify :: "pystr \<Rightarrow> py_exception + QueryType" where
  "pattern_classify query =
     (let scores = type_scores query in
      if scores \<noteq> [] then
        (let best_type = py_max_by snd (hd scores) (tl scores) in
         if snd best_type > 0 then QueryType_of_value (fst best_type)
         else Inr STATISTICS)
      else Inr STATISTICS)"

subsection \<open>Extraction\<close>

text \<open>
  One keyword per category of business objects (the inner loop ends at \<open>break\<close>), then
  every metric keyword that occurs. \<open>list(set(entities))\<close> removes duplicates; the order
  of the result is not determined by Python, and nothing below depends on it.
\<close>

definition extract_entities :: "pystr \<Rightarrow> pystr list" where
  "extract_entities query =
     (let objects = concat (map (\<lambda>(category, keywords).
                       case find (\<lambda>keyword. str_in keyword query) keywords of
                         Some keyword \<Rightarrow> [keyword] | None \<Rightarrow> []) business_entities);
          found_metrics = filter (\<lambda>metric. str_in metric query) business_metrics
      in remdups (objects @ found_metrics))"

fun extract_time_range_from :: "pattern list \<Rightarrow> pystr \<Rightarrow> pystr option" where
  "extract_time_range_from [] query = None"
| "extract_time_range_from (pattern # rest) query =
     (case re_search pattern query of
        Some matched \<Rightarrow> Some matched
      | None \<Rightarrow> extract_time_range_from rest query)"

definition extract_time_range :: "pystr \<Rightarrow> pystr option" where
  "extract_time_range query = extract_time_range_from time_patterns query"

definition extract_dimensions_metrics :: "pystr \<Rightarrow> pystr list \<times> pystr list" where
  "extract_dimensions_metrics query =
     (filter (\<lambda>dim. str_in dim query) dimension_words,
      filter (\<lambda>metric. str_in metric query) metric_words)"

definition extract_filters :: "pystr \<Rightarrow> (pystr \<times> filter_value) list" where
  "extract_filters query =
     (if str_in [0x5927, 0x4E8E] query \<or> str_in [0x8D85, 0x8FC7] query
      then [(S ''condition'', FStr (S ''greater_than''))]
      else if str_in [0x5C0F, 0x4E8E] query \<or> str_in [0x4F4E, 0x4E8E] query
      then [(S ''condition'', FStr (S ''less_than''))]
      else if str_in [0x7B49, 0x4E8E] query
      then [(S ''condition'', FStr (S ''equal''))]
      else [])"

subsection \<open>Confidence\<close>

text \<open>
  \<open>round(x, 2)\<close> on the exact value: to the nearest hundredth, a tie to the even one.
\<close>

definition py_round2 :: "rat \<Rightarrow> rat" where
  "py_round2 x =
     (let y = x * 100; f = \<lfloor>y\<rfloor>; d = y - of_int f
      in of_int (if d < 1 / 2 then f
                 else if d > 1 / 2 then f + 1
                 else if even f then f else f + 1) / 100)"

text \<open>The five factors, each between 0 and 1, and the bonus.\<close>

definition type_confidence :: "pystr \<Rightarrow> QueryType \<Rightarrow> rat" where
  "type_confidence query qt =
     (let type_patterns = (case map_of query_patterns (QueryType_value qt) of
                             Some ps \<Rightarrow> ps | None \<Rightarrow> []);
          type_match_count = length (filter (\<lambda>pattern. re_search pattern query \<noteq> None)
                                            type_patterns)
      in if type_patterns \<noteq> []
         then min (of_nat type_match_count / of_nat (length type_patterns)) 1
         else 3 / 10)"

definition entity_score :: "pystr list \<Rightarrow> rat" where
  "entity_score ents =
     (if length ents \<ge> 3 then 1
      else if length ents \<ge> 2 then 8 / 10
      else if length ents \<ge> 1 then 6 / 10
      else 3 / 10)"

definition time_confidence :: "pystr option \<Rightarrow> rat" where
  "time_confidence time_range' =
     (if time_range' \<noteq> None \<and> time_range' \<noteq> Some [] then 9 / 10 else 4 / 10)"

text \<open>\<open>min(len(xs) / 1, 1.0) if xs else 0.5\<close>, for the dimensions and for the metrics.\<close>

definition clarity :: "pystr list \<Rightarrow> rat" where
  "clarity xs = (if xs \<noteq> [] then min (of_nat (length xs) / 1) 1 else 1 / 2)"

definition bonus_points :: "pystr \<Rightarrow> rat" where
  "bonus_points query =
     (let query_length = length (py_strip query);
          bonus = (if 10 \<le> query_length \<and> query_length \<le> 100 then 5 / 100 else 0);
          keyword_count = length (filter (\<lambda>kw. str_in kw query) business_keywords);
          bonus = (if keyword_count \<ge> 2 then bonus + 5 / 100 else bonus);
          bonus = (if keyword_count \<ge> 4 then bonus + 5 / 100 else bonus)
      in bonus)"

definition calculate_enhanced_confidence ::
  "pystr \<Rightarrow> QueryType \<Rightarrow> pystr list \<Rightarrow> pystr option \<Rightarrow> pystr list \<Rightarrow> pystr list \<Rightarrow> rat" where
  "calculate_enhanced_confidence query qt ents time_range' dims mets =
     (let weighted_confidence =
            type_confidence query qt * (3 / 10)
            + entity_score ents * (2 / 10)
            + time_confidence time_range' * (2 / 10)
            + clarity dims * (15 / 100)
            + clarity mets * (15 / 100);
          final_confidence = min (weighted_confidence + bonus_points query) 1
      in py_round2 final_confidence)"

text \<open>
  The constructor of \<open>QueryIntent\<close> validates \<open>confidence\<close> against \<open>ge=0, le=1\<close> and
  raises a validation error otherwise.
\<close>

definition new_QueryIntent ::
  "QueryType \<Rightarrow> pystr list \<Rightarrow> pystr option \<Rightarrow> pystr list \<Rightarrow> pystr list
   \<Rightarrow> (pystr \<times> filter_value) list \<Rightarrow> rat \<Rightarrow> py_exception + QueryIntent" where
  "new_QueryIntent qt ents tr dims mets fs conf =
     (if 0 \<le> conf \<and> conf \<le> 1
      then Inr \<lparr>query_type = qt, entities = ents, time_range = tr, dimensions = dims,
               metrics = mets, filters = fs, confidence = conf\<rparr>
      else Inl (Exception (S ''1 validation error for QueryIntent'')))"

definition local_parse_intent :: "pystr \<Rightarrow> QueryType \<Rightarrow> rat \<Rightarrow> py_exception + QueryIntent" where
  "local_parse_intent query base_type base_confidence =
     (let ents = extract_entities query;
          tr = extract_time_range query;
          (dims, mets) = extract_dimensions_metrics query;
          fs = extract_filters query;
          enhanced_confidence = calculate_enhanced_confidence query base_type ents tr dims mets
      in new_QueryIntent base_type ents tr dims mets fs enhanced_confidence)"

subsection \<open>The external refiner and its call counter\<close>

text \<open>
  The state of the processor: the call counter and the history of tracked calls. The
  field \<open>requests_issued\<close> is not a field of the source: it counts the requests sent to
  the completion service, so that "the refiner is not invoked" can be stated.
\<close>

record tracked_call =
  timestamp :: int
  duration :: int
  call_count :: nat

record processor_state =
  api_call_count :: nat
  api_cost_tracking :: "tracked_call list"
  requests_issued :: nat

definition should_use_openai :: "pystr \<Rightarrow> processor_state \<Rightarrow> bool" where
  "should_use_openai openai_api_key st =
     (let daily_limit = 1000 in
      if api_call_count st \<ge> daily_limit then False
      else if openai_api_key = [] \<or> openai_api_key = S ''test_key_placeholder'' then False
      else True)"

definition track_api_usage :: "int \<Rightarrow> int \<Rightarrow> processor_state \<Rightarrow> processor_state" where
  "track_api_usage start_time now st =
     (let n = api_call_count st + 1 in
      st\<lparr>api_call_count := n,
         api_cost_tracking := api_cost_tracking st
           @ [\<lparr>timestamp = start_time, duration = now - start_time, call_count = n\<rparr>]\<rparr>)"

definition msg_cannot_understand :: pystr where
  "msg_cannot_understand =
     [0x65E0, 0x6CD5, 0x7406, 0x89E3, 0x60A8, 0x7684, 0x67E5, 0x8BE2, 0xFF0C, 0x8BF7, 0x5C1D,
      0x8BD5, 0x7528, 0x66F4, 0x7B80, 0x5355, 0x7684, 0x8BED, 0x8A00, 0x63CF, 0x8FF0, 0x3002]"

definition parsing_suggestions :: "pystr list" where
  "parsing_suggestions =
     [[0x8BF7, 0x4F7F, 0x7528, 0x66F4, 0x7B80, 0x5355, 0x76F4, 0x63A5, 0x7684, 0x8BED, 0x8A00],
      [0x660E, 0x786E, 0x6307, 0x5B9A, 0x65F6, 0x95F4, 0x8303, 0x56F4, 0xFF0C, 0x5982, 39,
       0x8FC7, 0x53BB, 51, 0x4E2A, 0x6708, 39],
      [0x660E, 0x786E, 0x6307, 0x5B9A, 0x5206, 0x6790, 0x5BF9, 0x8C61, 0xFF0C, 0x5982, 39,
       0x9500, 0x552E, 0x989D, 39, 0x3001, 39, 0x7528, 0x6237, 0x6570, 39]]"

definition intent_parsing_error :: "py_exception \<Rightarrow> QueryError_fields" where
  "intent_parsing_error e =
     new_QueryError (S ''INTENT_PARSING_ERROR'') (exception_str e) msg_cannot_understand
       parsing_suggestions"

text \<open>
  The completion service is outside the program: \<open>openai\<close> gives what
  \<open>_openai_parse_intent\<close> returns or raises for a query and a first guess, which depends
  on the answer of the service. \<open>start_time\<close> and \<open>now\<close> are the two readings of the clock.
\<close>

type_synonym openai_parse_intent = "pystr \<Rightarrow> QueryType \<Rightarrow> py_exception + QueryIntent"

definition parse_query_intent ::
  "pystr \<Rightarrow> openai_parse_intent \<Rightarrow> int \<Rightarrow> int \<Rightarrow> processor_state \<Rightarrow> pystr \<Rightarrow> bool
   \<Rightarrow> (QueryError_fields + QueryIntent) \<times> processor_state" where
  "parse_query_intent openai_api_key openai start_time now st natural_query use_openai =
     (let cleaned_query = preprocess_query natural_query in
      case pattern_classify cleaned_query of
        Inl e \<Rightarrow> (Inl (intent_parsing_error e), st)
      | Inr base_type \<Rightarrow>
          (let base_confidence = 6 / 10;
               local = (\<lambda>st'. case local_parse_intent cleaned_query base_type base_confidence of
                                Inl e \<Rightarrow> (Inl (intent_parsing_error e), st')
                              | Inr intent \<Rightarrow> (Inr intent, st'))
           in if use_openai \<and> should_use_openai openai_api_key st
              then
                (let st1 = st\<lparr>requests_issued := requests_issued st + 1\<rparr> in
                 case openai cleaned_query base_type of
                   Inr intent_result \<Rightarrow> (Inr intent_result, track_api_usage start_time now st1)
                 | Inl e \<Rightarrow> local st1)
              else local st))"


section \<open>Chart recommendation (chart\_recommender.py)\<close>

text \<open>
  A cell of the data preview: a string, a number, or a value of another type (\<open>None\<close>,
  a date, a list) that \<open>float\<close> rejects with \<open>TypeError\<close>. A row is a dict with string
  keys, modelled by its items in order. Which strings \<open>float\<close> accepts is decided by
  Python, not by the program: \<open>float_ok\<close> is a parameter.
\<close>

datatype cell = CStr pystr | CInt int | CFloat rat | CBool bool | COther

type_synonym row = "(pystr \<times> cell) list"

definition chart_rules :: "(QueryType \<times> ChartType) list" where
  "chart_rules =
     [(TREND, LINE), (COMPARISON, BAR), (RANKING, BAR), (STATISTICS, NUMBER), (PROPORTION, PIE)]"

fun is_numeric_string :: "(pystr \<Rightarrow> bool) \<Rightarrow> cell \<Rightarrow> bool" where
  "is_numeric_string float_ok (CStr s) = float_ok s"
| "is_numeric_string float_ok (CInt i) = True"
| "is_numeric_string float_ok (CFloat x) = True"
| "is_numeric_string float_ok (CBool b) = True"
| "is_numeric_string float_ok COther = False"

fun isinstance_str :: "cell \<Rightarrow> bool" where
  "isinstance_str (CStr s) = True"
| "isinstance_str _ = False"

text \<open>\<open>isinstance(value, (int, float))\<close>; \<open>bool\<close> is a subclass of \<open>int\<close>.\<close>

fun isinstance_int_float :: "cell \<Rightarrow> bool" where
  "isinstance_int_float (CInt i) = True"
| "isinstance_int_float (CFloat x) = True"
| "isinstance_int_float (CBool b) = True"
| "isinstance_int_float _ = False"

definition chart_time_keywords :: "pystr list" where
  "chart_time_keywords = [S ''date'', S ''time'', S ''created'', S ''updated'', S ''timestamp'']"

fun time_key_loop :: "pystr list \<Rightarrow> bool" where
  "time_key_loop [] = False"
| "time_key_loop (key # keys) =
     (let key_lower = py_lower key in
      if list_ex (\<lambda>keyword. str_in keyword key_lower) chart_time_keywords then True
      else time_key_loop keys)"

definition has_time_series_data :: "row list \<Rightarrow> bool" where
  "has_time_series_data data_preview =
     (case data_preview of [] \<Rightarrow> False | sample # _ \<Rightarrow> time_key_loop (map fst sample))"

fun categorical_loop :: "(pystr \<Rightarrow> bool) \<Rightarrow> row \<Rightarrow> bool" where
  "categorical_loop float_ok [] = False"
| "categorical_loop float_ok ((key, v) # items) =
     (if isinstance_str v \<and> \<not> is_numeric_string float_ok v then True
      else categorical_loop float_ok items)"

definition has_categorical_data :: "(pystr \<Rightarrow> bool) \<Rightarrow> row list \<Rightarrow> bool" where
  "has_categorical_data float_ok data_preview =
     (case data_preview of [] \<Rightarrow> False | sample # _ \<Rightarrow> categorical_loop float_ok sample)"

fun numeric_loop :: "(pystr \<Rightarrow> bool) \<Rightarrow> cell list \<Rightarrow> bool" where
  "numeric_loop float_ok [] = False"
| "numeric_loop float_ok (v # vs) =
     (if isinstance_int_float v \<or> is_numeric_string float_ok v then True
      else numeric_loop float_ok vs)"

definition has_numeric_data :: "(pystr \<Rightarrow> bool) \<Rightarrow> row list \<Rightarrow> bool" where
  "has_numeric_data float_ok data_preview =
     (case data_preview of [] \<Rightarrow> False | sample # _ \<Rightarrow> numeric_loop float_ok (map snd sample))"

definition optimize_chart_by_data ::
  "(pystr \<Rightarrow> bool) \<Rightarrow> ChartType \<Rightarrow> row list \<Rightarrow> QueryIntent \<Rightarrow> ChartType" where
  "optimize_chart_by_data float_ok base_chart data_preview intent =
     (if data_preview = [] then base_chart
      else
        (let data_sample = hd data_preview;
             column_count = length (map fst data_sample);
             row_count = length data_preview;
             has_time_series = has_time_series_data data_preview;
             has_categories = has_categorical_data float_ok data_preview;
             has_numeric_values = has_numeric_data float_ok data_preview
         in if has_time_series \<and> has_numeric_values then LINE
            else if has_categories \<and> has_numeric_values then
              (if row_count \<le> 5 then PIE
               else if row_count \<le> 20 then BAR
               else TABLE)
            else if column_count = 1 then NUMBER
            else if row_count > 50 then TABLE
            else base_chart))"

text \<open>
  With string keys and cells as above no step of the recommendation raises, so the
  \<open>except\<close> branch (which returns \<open>TABLE\<close>) is not taken.
\<close>

definition recommend_chart ::
  "(pystr \<Rightarrow> bool) \<Rightarrow> QueryIntent \<Rightarrow> row list option \<Rightarrow> ChartType" where
  "recommend_chart float_ok intent data_preview =
     (let base_recommendation = (case map_of chart_rules (query_type intent) of
                                   Some c \<Rightarrow> c | None \<Rightarrow> TABLE)
      in case data_preview of
           None \<Rightarrow> base_recommendation
         | Some [] \<Rightarrow> base_recommendation
         | Some (r # rs) \<Rightarrow> optimize_chart_by_data float_ok base_recommendation (r # rs) intent)"


subsection \<open>The refinement ladder as the specification states it\<close>

text \<open>
  The second definition of the chart, following the words of the specification: the base
  rule, and the ladder over the features of the preview. The features are read off the
  first row, the sample of the source. A cell is numeric when it is a number (Python
  counts \<open>bool\<close> as \<open>int\<close>) or a string that \<open>float\<close> accepts, and categorical when it is
  a string that \<open>float\<close> rejects.
\<close>

fun base_rule :: "QueryType \<Rightarrow> ChartType" where
  "base_rule TREND = LINE"
| "base_rule COMPARISON = BAR"
| "base_rule RANKING = BAR"
| "base_rule STATISTICS = NUMBER"
| "base_rule PROPORTION = PIE"

fun numeric_cell :: "(pystr \<Rightarrow> bool) \<Rightarrow> cell \<Rightarrow> bool" where
  "numeric_cell float_ok (CStr s) = float_ok s"
| "numeric_cell float_ok (CInt i) = True"
| "numeric_cell float_ok (CFloat x) = True"
| "numeric_cell float_ok (CBool b) = True"
| "numeric_cell float_ok COther = False"

fun categorical_cell :: "(pystr \<Rightarrow> bool) \<Rightarrow> cell \<Rightarrow> bool" where
  "categorical_cell float_ok (CStr s) = (\<not> float_ok s)"
| "categorical_cell float_ok _ = False"

definition time_named :: "pystr \<Rightarrow> bool" where
  "time_named name =
     list_ex (\<lambda>keyword. str_in keyword (py_lower name))
       [S ''date'', S ''time'', S ''created'', S ''updated'', S ''timestamp'']"

definition chart_ladder :: "(pystr \<Rightarrow> bool) \<Rightarrow> QueryType \<Rightarrow> row list \<Rightarrow> ChartType" where
  "chart_ladder float_ok qt preview =
     (let sample = hd preview;
          row_count = length preview;
          some_time_column = list_ex (\<lambda>(name, v). time_named name) sample;
          some_numeric_column = list_ex (\<lambda>(name, v). numeric_cell float_ok v) sample;
          some_categorical_column = list_ex (\<lambda>(name, v). categorical_cell float_ok v) sample
      in if some_time_column \<and> some_numeric_column then LINE
         else if some_categorical_column \<and> some_numeric_column then
           (if row_count \<le> 5 then PIE else if row_count \<le> 20 then BAR else TABLE)
         else if length sample = 1 then NUMBER
         else if row_count > 50 then TABLE
         else base_rule qt)"

subsection \<open>The score of a category as the specification states it\<close>

text \<open>
  The total match count of a category: every pattern of the category scans the whole
  text on its own, and the numbers of matches are added, so a piece of text that several
  patterns match counts once for each of them. \<open>category_index\<close> is the position in the
  enumeration order.
\<close>

definition category_score :: "QueryType \<Rightarrow> pystr \<Rightarrow> nat" where
  "category_score c query =
     sum_list (map (\<lambda>pattern. findall_count pattern query)
                   (case map_of query_patterns (QueryType_value c) of
                      Some patterns \<Rightarrow> patterns | None \<Rightarrow> []))"

fun category_index :: "QueryType \<Rightarrow> nat" where
  "category_index TREND = 0"
| "category_index COMPARISON = 1"
| "category_index RANKING = 2"
| "category_index STATISTICS = 3"
| "category_index PROPORTION = 4"

text \<open>
  The first category, in the enumeration order, whose score is the highest one; the
  default when every score is 0.
\<close>

definition first_best :: "nat \<Rightarrow> nat \<Rightarrow> nat \<Rightarrow> nat \<Rightarrow> nat \<Rightarrow> QueryType" where
  "first_best a b c d e =
     (if a = 0 \<and> b = 0 \<and> c = 0 \<and> d = 0 \<and> e = 0 then STATISTICS
      else if b \<le> a \<and> c \<le> a \<and> d \<le> a \<and> e \<le> a then TREND
      else if c \<le> b \<and> d \<le> b \<and> e \<le> b then COMPARISON
      else if d \<le> c \<and> e \<le> c then RANKING
      else if e \<le> d then STATISTICS
      else PROPORTION)"

subsection \<open>Notions used in the proofs\<close>

text \<open>
  An item is blocked by a set of code points when it cannot match inside any text made
  of them: a literal with a character that matches none of them, a character set none
  of whose members match, or digits when none of them is a digit.
\<close>

fun item_blocked :: "nat list \<Rightarrow> rx \<Rightarrow> bool" where
  "item_blocked chars (Str t) = list_ex (\<lambda>p. list_all (\<lambda>c. \<not> ieq p c) chars) t"
| "item_blocked chars (OneOf cs) = list_all (\<lambda>p. list_all (\<lambda>c. \<not> ieq p c) chars) cs"
| "item_blocked chars AnyLazy = False"
| "item_blocked chars Digits = list_all (\<lambda>c. \<not> is_digit c) chars"

definition pattern_blocked :: "nat list \<Rightarrow> pattern \<Rightarrow> bool" where
  "pattern_blocked chars p = list_all (\<lambda>alt. list_ex (item_blocked chars) alt) p"

text \<open>A pattern each of whose alternatives starts with literal text.\<close>

fun starts_with_text :: "rx list \<Rightarrow> bool" where
  "starts_with_text (Str t # r) = (t \<noteq> [])"
| "starts_with_text _ = False"

section \<open>Sample inputs\<close>

text \<open>
  A parser that sees one statement whose first token is a DML keyword made of the first
  six characters of the text; it stands for \<open>sqlparse\<close> in the examples.
\<close>

definition select_parser :: sqlparse where
  "select_parser s =
     Inr [[\<lparr>ttype = Keyword_DML, tvalue = take 6 s, is_whitespace = False\<rparr>]]"


definition trend_intent :: QueryIntent where
  "trend_intent =
     \<lparr>query_type = TREND, entities = [], time_range = None, dimensions = [], metrics = [],
      filters = [], confidence = 9 / 10\<rparr>"

definition sales_schema :: schema_info where
  "sales_schema =
     \<lparr>main_table = Some (S ''sales_data''),
      columns = Some [S ''date'', S ''product'', S ''amount'', S ''region'']\<rparr>"

definition drop_statement :: pystr where
  "drop_statement = S ''DROP TABLE sales_data''"

definition plain_schema :: schema_info where
  "plain_schema =
     \<lparr>main_table = Some (S ''sales_data''),
      columns = Some [S ''product'', S ''amount'', S ''region'']\<rparr>"

definition created_at_statement :: pystr where
  "created_at_statement =
     S ''SELECT created_at, COUNT(*)'' @ NL @ S ''            FROM sales_data'' @ NL
     @ S ''            WHERE 1=1'' @ NL @ S ''            GROUP BY created_at'' @ NL
     @ S ''            ORDER BY created_at''"


definition lower_select_statement :: pystr where
  "lower_select_statement = S ''select * from sales_data''"

text \<open>A stand-in for \<open>float\<close> on strings: it accepts the non-empty strings of digits.\<close>

definition digits_ok :: "pystr \<Rightarrow> bool" where
  "digits_ok s = (s \<noteq> [] \<and> list_all is_digit s)"

definition comparison_intent :: QueryIntent where
  "comparison_intent = trend_intent\<lparr>query_type := COMPARISON\<rparr>"

definition time_series_row :: row where
  "time_series_row = [(S ''date'', CStr (S ''2024-01'')), (S ''value'', CInt 100)]"

definition category_row :: row where
  "category_row = [(S ''category'', CStr (S ''A'')), (S ''value'', CInt 2500)]"

definition count_row :: row where
  "count_row = [(S ''total_count'', CInt 1250)]"

definition names_row :: row where
  "names_row = [(S ''name'', CStr (S ''A'')), (S ''city'', CStr (S ''B''))]"

text \<open>Two short queries: "compare" followed by "trend", and "growth rate".\<close>

definition compare_trend_query :: pystr where
  "compare_trend_query = [0x5BF9, 0x6BD4, 0x8D8B, 0x52BF]"

definition growth_rate_query :: pystr where
  "growth_rate_query = [0x589E, 0x957F, 0x7387]"

text \<open>
  A query with a time phrase, a dimension word, a metric word and three entities, and the
  same query followed by ninety letters \<open>x\<close>, which makes it longer than 100 characters.
  \<open>padded_chars\<close> lists the code points of the padded query.
\<close>

definition today_query :: pystr where
  "today_query = S ''today'' @ [0x6E20, 0x9053, 0x6536, 0x5165, 0x5546, 0x54C1, 0x7528, 0x6237]"

definition padded_query :: pystr where
  "padded_query = today_query @ replicate 90 120"

definition padded_chars :: "nat list" where
  "padded_chars = [116, 111, 100, 97, 121, 0x6E20, 0x9053, 0x6536, 0x5165, 0x5546, 0x54C1, 0x7528, 0x6237, 120]"

text \<open>
  A processor that has made no call yet, a configured key, and a completion service whose
  every request times out.
\<close>

definition fresh_state :: processor_state where
  "fresh_state = \<lparr>api_call_count = 0, api_cost_tracking = [], requests_issued = 0\<rparr>"

definition configured_key :: pystr where
  "configured_key = S ''sk-configured''"

definition failing_service :: openai_parse_intent where
  "failing_service query base_type = Inl (Exception (S ''Request timed out.''))"

text \<open>The three queries of the repository's classification test.\<close>

definition test_trend_query :: pystr where
  "test_trend_query =
     [0x663E, 0x793A, 0x8FC7, 0x53BB, 51, 0x4E2A, 0x6708, 0x7684, 0x9500, 0x552E, 0x8D8B, 0x52BF]"

definition test_comparison_query :: pystr where
  "test_comparison_query =
     [0x5BF9, 0x6BD4, 0x5404, 0x90E8, 0x95E8, 0x7684, 0x9500, 0x552E, 0x4E1A, 0x7EE9]"

definition test_ranking_query :: pystr where
  "test_ranking_query =
     [0x9500, 0x552E, 0x989D, 84, 79, 80, 49, 48, 0x7684, 0x4EA7, 0x54C1]"

section \<open>Properties of the safety check\<close>

lemma upper_contains:
  "str_in x s \<Longrightarrow> str_in k (py_upper x) \<Longrightarrow> str_in k (py_upper s)"
  unfolding py_upper_def
  by (meson map_mono_sublist sublist_order.order.trans)

lemma check_sql_safety_keyword:
  "list_ex (\<lambda>keyword. str_in keyword (py_upper s)) dangerous_keywords
   \<Longrightarrow> check_sql_safety parse s = Inr 0"
  by (simp add: check_sql_safety_def)





section \<open>Properties of \<open>generate_sql\<close>\<close>

lemmas template_eval =
  generate_template_sql_def sql_params_def sql_templates_def template_trend_def
  template_comparison_def template_ranking_def template_statistics_def template_proportion_def
  build_where_conditions_def build_time_filter_def get_time_dimension_def str_or_def
  py_strip_def py_isspace_def py_lower_def lower_cp_def sublist_code Let_def

lemma error_message_new_QueryError [simp]:
  "error_message (new_QueryError etype message friendly sugg) = message"
  "error_type (new_QueryError etype message friendly sugg) = etype"
  by (simp_all add: new_QueryError_def)

lemma trend_template_sql:
  "generate_template_sql trend_intent sales_schema =
     Inr (S ''SELECT date, COUNT(*)'' @ NL @ S ''            FROM sales_data'' @ NL
          @ S ''            WHERE 1=1'' @ NL @ S ''            GROUP BY date'' @ NL
          @ S ''            ORDER BY date'')"
  by (simp add: template_eval trend_intent_def sales_schema_def)

lemma plain_trend_template_sql:
  "generate_template_sql trend_intent plain_schema = Inr created_at_statement"
  by (simp add: template_eval trend_intent_def plain_schema_def created_at_statement_def)


text \<open>
  Whatever \<open>generate_sql\<close> raises has the type \<open>SQL_GENERATION_ERROR\<close>, and a query that
  it returns has a safety score of at least 0.8.
\<close>

lemma generate_sql_error_type:
  "generate_sql parse reply intent schema = Inl e \<Longrightarrow> error_type e = S ''SQL_GENERATION_ERROR''"
  by (auto simp: generate_sql_def new_QueryError_def split: sum.splits)

lemma generate_sql_safe:
  "generate_sql parse reply intent schema = Inr q \<Longrightarrow> safety_score q \<ge> 8 / 10"
  by (auto simp: generate_sql_def generate_sql_try_def Let_def split: sum.splits if_splits)

lemma drop_reply:
  "gpt_optimize_sql select_parser (Some drop_statement) base = drop_statement"
  by (simp add: gpt_optimize_sql_def select_parser_def extract_sql_block_def py_strip_def
        py_isspace_def drop_statement_def)

lemma drop_score: "check_sql_safety parse drop_statement = Inr 0"
  by (rule check_sql_safety_keyword)
     (simp add: dangerous_keywords_def py_upper_def upper_cp_def sublist_code drop_statement_def)

text \<open>
  C2. A statement whose safety score is below 0.8 is never returned, and the caller is to
  receive the error type \<open>SQL_SAFETY_ERROR\<close>. The first half holds (lemma
  \<open>generate_sql_safe\<close>). The second does not: the \<open>QueryError\<close> of type
  \<open>SQL_SAFETY_ERROR\<close> is raised inside the \<open>try\<close> block whose handler catches every
  \<open>Exception\<close>, so the caller receives \<open>SQL_GENERATION_ERROR\<close>. Below, the service
  answers a trend query over the sales schema with \<open>DROP TABLE sales_data\<close>: the body
  raises the safety error and \<open>generate_sql\<close> raises the generation error.
\<close>

theorem generate_sql_masks_safety_error:
  "generate_sql_try select_parser (Some drop_statement) trend_intent sales_schema
     = Inl (QueryError (new_QueryError (S ''SQL_SAFETY_ERROR'') msg_sql_dangerous
                          msg_query_blocked []))
   \<and> generate_sql select_parser (Some drop_statement) trend_intent sales_schema
     = Inl (new_QueryError (S ''SQL_GENERATION_ERROR'') msg_sql_dangerous
              msg_cannot_generate [])"
proof -
  have "generate_sql_try select_parser (Some drop_statement) trend_intent sales_schema
     = Inl (QueryError (new_QueryError (S ''SQL_SAFETY_ERROR'') msg_sql_dangerous
                          msg_query_blocked []))"
    unfolding generate_sql_try_def trend_template_sql
    by (simp only: sum.case Let_def drop_reply drop_score) simp
  then show ?thesis
    by (simp add: generate_sql_def)
qed

section \<open>Properties of the cost estimate\<close>

lemma estimate_query_cost_formula:
  "estimate_query_cost s schema =
     1 + 2 * int (str_count (py_upper s) (S ''JOIN''))
       + 3 * (int (str_count s (S ''SELECT'')) - 1)
       + (if str_in (S ''GROUP BY'') (py_upper s) then 1 else 0)
       + (if str_in (S ''ORDER BY'') (py_upper s) then 1 else 0)
       + (if str_in (S ''DISTINCT'') (py_upper s) then 1 else 0)
       + (if str_in (S ''UNION'') (py_upper s) then 1 else 0)"
  by (simp add: estimate_query_cost_def)

lemma select_lower_safe:
  "check_sql_safety select_parser lower_select_statement = Inr (9 / 10)"
  by (simp add: check_sql_safety_def select_parser_def dangerous_keywords_def py_upper_def
        upper_cp_def sublist_code injection_risk_def str_count.simps lower_select_statement_def)

lemma select_lower_reply:
  "gpt_optimize_sql select_parser (Some lower_select_statement) base = lower_select_statement"
  by (simp add: gpt_optimize_sql_def select_parser_def extract_sql_block_def py_strip_def
        py_isspace_def lower_select_statement_def)

lemma select_lower_cost: "estimate_query_cost lower_select_statement schema = - 2"
  by (simp add: estimate_query_cost_formula str_count.simps py_upper_def upper_cp_def
        sublist_code lower_select_statement_def)

text \<open>
  C6. The estimated cost is 1, plus 2 for each \<open>JOIN\<close>, plus 3 for each \<open>SELECT\<close> beyond
  the first, plus 1 for each of \<open>GROUP BY\<close>, \<open>ORDER BY\<close>, \<open>DISTINCT\<close>, \<open>UNION\<close> that
  occurs, and it is never negative. The code subtracts 1 from the number of \<open>SELECT\<close>s
  before it multiplies by 3, and it counts \<open>SELECT\<close> in the text as written while it counts
  \<open>JOIN\<close> in the upper-cased text. A statement written in lower case has no \<open>SELECT\<close>
  for this count: its cost is \<open>1 - 3 = -2\<close>. The safety check accepts such a statement (it
  upper-cases the first token), so \<open>generate_sql\<close> returns the negative cost.
\<close>

theorem estimate_query_cost_negative:
  "estimate_query_cost lower_select_statement sales_schema = - 2
   \<and> generate_sql select_parser (Some lower_select_statement) trend_intent sales_schema
       = Inr \<lparr>sql = lower_select_statement, parameters = [], estimated_cost = Some (- 2),
              safety_score = 9 / 10\<rparr>"
proof -
  have "generate_sql_try select_parser (Some lower_select_statement) trend_intent sales_schema
       = Inr \<lparr>sql = lower_select_statement, parameters = [], estimated_cost = Some (- 2),
              safety_score = 9 / 10\<rparr>"
    unfolding generate_sql_try_def trend_template_sql
    by (simp only: sum.case Let_def select_lower_reply select_lower_safe select_lower_cost)
       simp
  then show ?thesis
    by (simp add: generate_sql_def select_lower_cost)
qed

section \<open>The denylist is a substring match\<close>

lemma generate_sql_blocked:
  assumes "generate_template_sql intent schema = Inr template_sql"
    and "check_sql_safety parse (gpt_optimize_sql parse reply template_sql) = Inr 0"
  shows "\<exists>e. generate_sql parse reply intent schema = Inl e"
  using assms by (simp add: generate_sql_def generate_sql_try_def)

lemma CREATE_UPDATE_dangerous:
  "S ''CREATE'' \<in> set dangerous_keywords" "S ''UPDATE'' \<in> set dangerous_keywords"
  by (simp_all add: dangerous_keywords_def)

text \<open>
  C10. The denylist check looks for the keywords as substrings of the upper-cased
  statement. So a statement scores 0 as soon as a keyword occurs inside a longer
  identifier, and generation is blocked, whatever the statement does: every statement
  that mentions a column \<open>created_at\<close> or \<open>updated_at\<close> scores 0. The time dimension that
  the builder uses when no column name contains \<open>date\<close>, \<open>time\<close> or \<open>created\<close> is
  \<open>created_at\<close>.
\<close>

theorem denylist_is_substring_match:
  "(keyword \<in> set dangerous_keywords \<and> str_in keyword (py_upper s)
      \<longrightarrow> check_sql_safety parse s = Inr 0)
   \<and> (keyword \<in> set dangerous_keywords
        \<and> generate_template_sql intent schema = Inr template_sql
        \<and> str_in keyword (py_upper (gpt_optimize_sql parse reply template_sql))
      \<longrightarrow> (\<exists>e. generate_sql parse reply intent schema = Inl e))
   \<and> (str_in (S ''created_at'') s \<or> str_in (S ''updated_at'') s
      \<longrightarrow> check_sql_safety parse s = Inr 0)
   \<and> (list_all (\<lambda>column. \<not> list_ex (\<lambda>time_keyword. str_in time_keyword (py_lower column))
                                   [S ''date'', S ''time'', S ''created'']) available_columns
      \<longrightarrow> get_time_dimension available_columns = S ''created_at'')"
proof (intro conjI impI)
  assume "keyword \<in> set dangerous_keywords \<and> str_in keyword (py_upper s)"
  then show "check_sql_safety parse s = Inr 0"
    by (intro check_sql_safety_keyword) (auto simp: list_ex_iff)
next
  assume a: "keyword \<in> set dangerous_keywords
        \<and> generate_template_sql intent schema = Inr template_sql
        \<and> str_in keyword (py_upper (gpt_optimize_sql parse reply template_sql))"
  then have "check_sql_safety parse (gpt_optimize_sql parse reply template_sql) = Inr 0"
    by (intro check_sql_safety_keyword) (auto simp: list_ex_iff)
  with a show "\<exists>e. generate_sql parse reply intent schema = Inl e"
    by (intro generate_sql_blocked) auto
next
  assume "str_in (S ''created_at'') s \<or> str_in (S ''updated_at'') s"
  then have "str_in (S ''CREATE'') (py_upper s) \<or> str_in (S ''UPDATE'') (py_upper s)"
  proof
    assume "str_in (S ''created_at'') s"
    moreover have "str_in (S ''CREATE'') (py_upper (S ''created_at''))"
      by (simp add: py_upper_def upper_cp_def sublist_code)
    ultimately show ?thesis by (blast intro: upper_contains)
  next
    assume "str_in (S ''updated_at'') s"
    moreover have "str_in (S ''UPDATE'') (py_upper (S ''updated_at''))"
      by (simp add: py_upper_def upper_cp_def sublist_code)
    ultimately show ?thesis by (blast intro: upper_contains)
  qed
  with CREATE_UPDATE_dangerous show "check_sql_safety parse s = Inr 0"
    by (intro check_sql_safety_keyword) (auto simp: list_ex_iff)
next
  assume "list_all (\<lambda>column. \<not> list_ex (\<lambda>time_keyword. str_in time_keyword (py_lower column))
                                   [S ''date'', S ''time'', S ''created'']) available_columns"
  then have "find (\<lambda>column. list_ex (\<lambda>time_keyword. str_in time_keyword (py_lower column))
                            [S ''date'', S ''time'', S ''created'']) available_columns = None"
    unfolding find_None_iff list_all_iff by blast
  then show "get_time_dimension available_columns = S ''created_at''"
    unfolding get_time_dimension_def by simp
qed

theorem denylist_is_substring_match_witness:
  "S ''CREATE'' \<in> set dangerous_keywords
   \<and> generate_template_sql trend_intent plain_schema = Inr created_at_statement
   \<and> str_in (S ''CREATE'') (py_upper (gpt_optimize_sql select_parser None created_at_statement))
   \<and> str_in (S ''created_at'') created_at_statement
   \<and> check_sql_safety select_parser created_at_statement = Inr 0
   \<and> (\<exists>e. generate_sql select_parser None trend_intent plain_schema = Inl e)
   \<and> get_time_dimension [S ''product'', S ''amount'', S ''region''] = S ''created_at''"
proof -
  have a: "str_in (S ''CREATE'') (py_upper (gpt_optimize_sql select_parser None created_at_statement))"
    by (simp add: gpt_optimize_sql_def created_at_statement_def py_upper_def upper_cp_def
          sublist_code)
  have b: "str_in (S ''created_at'') created_at_statement"
    by (simp add: created_at_statement_def sublist_code)
  have c: "list_all (\<lambda>column. \<not> list_ex (\<lambda>time_keyword. str_in time_keyword (py_lower column))
                       [S ''date'', S ''time'', S ''created''])
             [S ''product'', S ''amount'', S ''region'']"
    by (simp add: py_lower_def lower_cp_def sublist_code)
  from a b c CREATE_UPDATE_dangerous(1) plain_trend_template_sql
    denylist_is_substring_match [of "S ''CREATE''" created_at_statement select_parser
      trend_intent plain_schema created_at_statement None
      "[S ''product'', S ''amount'', S ''region'']"]
  show ?thesis by blast
qed

section \<open>Template filling\<close>










section \<open>Properties of the chart recommendation\<close>

lemma time_key_loop_iff:
  "time_key_loop (map fst sample) \<longleftrightarrow> list_ex (\<lambda>(name, v). time_named name) sample"
  by (induction sample) (auto simp: time_named_def chart_time_keywords_def Let_def)

lemma categorical_loop_iff:
  "categorical_loop float_ok sample
     \<longleftrightarrow> list_ex (\<lambda>(name, v). categorical_cell float_ok v) sample"
proof (induction sample)
  case Nil
  show ?case by simp
next
  case (Cons item sample)
  obtain name v where item: "item = (name, v)" by (cases item)
  show ?case using Cons.IH by (cases v) (simp_all add: item)
qed

lemma numeric_loop_iff:
  "numeric_loop float_ok (map snd sample)
     \<longleftrightarrow> list_ex (\<lambda>(name, v). numeric_cell float_ok v) sample"
proof (induction sample)
  case Nil
  show ?case by simp
next
  case (Cons item sample)
  obtain name v where item: "item = (name, v)" by (cases item)
  show ?case using Cons.IH by (cases v) (simp_all add: item)
qed

lemma chart_rules_base:
  "(case map_of chart_rules qt of Some c \<Rightarrow> c | None \<Rightarrow> TABLE) = base_rule qt"
  by (cases qt) (simp_all add: chart_rules_def)

text \<open>
  C7. For every intent and every non-empty data preview the recommended chart is the one
  of the refinement ladder: \<open>LINE\<close> when a column name contains a time keyword and a
  column is numeric, whatever the base rule says; otherwise, with a categorical and a
  numeric column, \<open>PIE\<close> up to 5 rows, \<open>BAR\<close> up to 20 and \<open>TABLE\<close> beyond; otherwise
  \<open>NUMBER\<close> for a single column; otherwise \<open>TABLE\<close> beyond 50 rows; otherwise the base
  rule of the intent's category. The witness runs the ladder on previews of 4, 12 and 30
  categorical rows, among others.
\<close>

theorem chart_follows_refinement_ladder:
  "data_preview \<noteq> [] \<Longrightarrow>
   recommend_chart float_ok intent (Some data_preview)
     = chart_ladder float_ok (query_type intent) data_preview"
proof -
  assume "data_preview \<noteq> []"
  then obtain sample rest where dp: "data_preview = sample # rest"
    by (cases data_preview) auto
  show ?thesis
    unfolding dp recommend_chart_def chart_rules_base
    by (simp add: optimize_chart_by_data_def chart_ladder_def has_time_series_data_def
          has_categorical_data_def has_numeric_data_def time_key_loop_iff categorical_loop_iff
          numeric_loop_iff Let_def)
qed

lemmas chart_eval =
  chart_ladder_def time_named_def digits_ok_def is_digit_def py_lower_def lower_cp_def
  sublist_code Let_def comparison_intent_def trend_intent_def

theorem chart_follows_refinement_ladder_witness:
  "replicate 4 category_row \<noteq> []
   \<and> recommend_chart digits_ok comparison_intent (Some [time_series_row, time_series_row]) = LINE
   \<and> recommend_chart digits_ok comparison_intent (Some (replicate 4 category_row)) = PIE
   \<and> recommend_chart digits_ok comparison_intent (Some (replicate 12 category_row)) = BAR
   \<and> recommend_chart digits_ok comparison_intent (Some (replicate 30 category_row)) = TABLE
   \<and> recommend_chart digits_ok comparison_intent (Some [count_row]) = NUMBER
   \<and> recommend_chart digits_ok comparison_intent (Some (replicate 51 names_row)) = TABLE
   \<and> recommend_chart digits_ok comparison_intent (Some (replicate 3 names_row)) = BAR"
proof -
  have hd_rep: "hd (replicate (numeral n) r) = r" for n and r :: row
    by (simp add: numeral_eq_Suc)
  have ne: "replicate (numeral n) r \<noteq> []" for n and r :: row
    by (simp add: numeral_eq_Suc)
  have 1: "chart_ladder digits_ok COMPARISON [time_series_row, time_series_row] = LINE"
    by (simp add: chart_eval time_series_row_def)
  have 2: "chart_ladder digits_ok COMPARISON (replicate 4 category_row) = PIE"
    by (simp add: chart_eval category_row_def hd_rep)
  have 3: "chart_ladder digits_ok COMPARISON (replicate 12 category_row) = BAR"
    by (simp add: chart_eval category_row_def hd_rep)
  have 4: "chart_ladder digits_ok COMPARISON (replicate 30 category_row) = TABLE"
    by (simp add: chart_eval category_row_def hd_rep)
  have 5: "chart_ladder digits_ok COMPARISON [count_row] = NUMBER"
    by (simp add: chart_eval count_row_def)
  have 6: "chart_ladder digits_ok COMPARISON (replicate 51 names_row) = TABLE"
    by (simp add: chart_eval names_row_def hd_rep)
  have 7: "chart_ladder digits_ok COMPARISON (replicate 3 names_row) = BAR"
    by (simp add: chart_eval names_row_def hd_rep)
  have qt: "query_type comparison_intent = COMPARISON"
    by (simp add: comparison_intent_def)
  show ?thesis
    using ne [of _ category_row]
    by (simp add: 1 2 3 4 5 6 7 qt chart_follows_refinement_ladder)
qed

section \<open>Properties of the pattern classifier\<close>

lemma foldl_add_sum_list:
  "foldl (\<lambda>score x. score + f x) acc xs = acc + sum_list (map f xs)"
  by (induction xs arbitrary: acc) (simp_all add: add.assoc)

lemma pattern_score_sum:
  "pattern_score patterns query = sum_list (map (\<lambda>pattern. findall_count pattern query) patterns)"
  by (simp add: pattern_score_def foldl_add_sum_list)

lemma type_scores_eq:
  "type_scores query =
     [(S ''trend'', category_score TREND query),
      (S ''comparison'', category_score COMPARISON query),
      (S ''ranking'', category_score RANKING query),
      (S ''statistics'', category_score STATISTICS query),
      (S ''proportion'', category_score PROPORTION query)]"
  by (simp add: type_scores_def query_patterns_def category_score_def pattern_score_sum)

lemma QueryType_of_value_simps:
  "QueryType_of_value (S ''trend'') = Inr TREND"
  "QueryType_of_value (S ''comparison'') = Inr COMPARISON"
  "QueryType_of_value (S ''ranking'') = Inr RANKING"
  "QueryType_of_value (S ''statistics'') = Inr STATISTICS"
  "QueryType_of_value (S ''proportion'') = Inr PROPORTION"
  by (simp_all add: QueryType_of_value_def)

lemma classify_scores:
  "py_max_by snd (k1, a) [(k2, b), (k3, c), (k4, d), (k5, e :: nat)] =
   (if b \<le> a \<and> c \<le> a \<and> d \<le> a \<and> e \<le> a then (k1, a)
    else if c \<le> b \<and> d \<le> b \<and> e \<le> b then (k2, b)
    else if d \<le> c \<and> e \<le> c then (k3, c)
    else if e \<le> d then (k4, d)
    else (k5, e))"
  by (auto simp: Let_def)

lemma classify_general:
  assumes "conv k1 = Inr TREND" "conv k2 = Inr COMPARISON" "conv k3 = Inr RANKING"
    "conv k4 = Inr STATISTICS" "conv k5 = Inr PROPORTION"
  shows "(if 0 < snd (py_max_by snd (k1, a) [(k2, b), (k3, c), (k4, d), (k5, e)])
          then conv (fst (py_max_by snd (k1, a) [(k2, b), (k3, c), (k4, d), (k5, e)]))
          else Inr STATISTICS) = Inr (first_best a b c d e)"
  unfolding classify_scores first_best_def
  by (simp add: assms) arith

lemma pattern_classify_cascade:
  "pattern_classify query =
     Inr (first_best (category_score TREND query) (category_score COMPARISON query)
            (category_score RANKING query) (category_score STATISTICS query)
            (category_score PROPORTION query))"
  unfolding pattern_classify_def type_scores_eq Let_def list.sel
  by (simp only: classify_general [where conv = QueryType_of_value, OF QueryType_of_value_simps]
        list.distinct not_False_eq_True if_True)

lemma all_QueryType:
  "(\<forall>c. P c) \<longleftrightarrow> P TREND \<and> P COMPARISON \<and> P RANKING \<and> P STATISTICS \<and> P PROPORTION"
  by (metis QueryType.exhaust)

lemma ex_QueryType:
  "(\<exists>c. P c) \<longleftrightarrow> P TREND \<or> P COMPARISON \<or> P RANKING \<or> P STATISTICS \<or> P PROPORTION"
  by (metis QueryType.exhaust)

lemma first_best_max:
  fixes f :: "QueryType \<Rightarrow> nat"
  defines "t \<equiv> first_best (f TREND) (f COMPARISON) (f RANKING) (f STATISTICS) (f PROPORTION)"
  shows "\<forall>c. f c \<le> f t"
    and "(\<forall>c. f c = 0) \<longrightarrow> t = STATISTICS"
    and "(\<exists>c. 0 < f c) \<longrightarrow> (\<forall>c. f c = f t \<longrightarrow> category_index t \<le> category_index c)"
  unfolding t_def first_best_def all_QueryType ex_QueryType
  by (simp_all; arith)+

lemmas regex_eval =
  findall_count.simps match_alts.simps match_seq.simps imatch.simps ieq_def re_lower_def
  lower_cp_def is_digit_def

lemmas score_eval =
  category_score_def query_patterns_def patterns_trend_def patterns_comparison_def
  patterns_ranking_def patterns_statistics_def patterns_proportion_def

lemma category_score_empty: "category_score c [] = 0"
  by (cases c) (simp_all add: score_eval regex_eval)

lemma compare_trend_scores:
  "category_score TREND compare_trend_query = 1"
  "category_score COMPARISON compare_trend_query = 1"
  "category_score RANKING compare_trend_query = 0"
  "category_score STATISTICS compare_trend_query = 0"
  "category_score PROPORTION compare_trend_query = 0"
  by (simp_all add: score_eval regex_eval compare_trend_query_def)

lemma growth_rate_score: "category_score TREND growth_rate_query = 2"
  by (simp add: score_eval regex_eval growth_rate_query_def)

text \<open>
  Within one pattern the scan goes on where the last match ended, as \<open>re.findall\<close> does:
  the text "average value" holds one match of a pattern with the alternatives "average"
  and "average value".
\<close>

lemma findall_scans_left_to_right:
  "findall_count [[Str [0x5E73, 0x5747]], [Str [0x5E73, 0x5747, 0x503C]]]
     [0x5E73, 0x5747, 0x503C] = 1"
  by (simp add: regex_eval)

text \<open>
  C4. For every text the classifier returns a category, and never fails. The category it
  returns has the highest total match count, where each pattern of a category scans the
  text on its own and the counts are added (so text matched by several patterns counts
  for each of them: "growth rate" scores 2 for the trend category). Among several
  categories with the highest count it is the first in the order trend, comparison,
  ranking, statistics, proportion. When every count is 0 it is \<open>STATISTICS\<close>, and so it
  is for the empty text.
\<close>

theorem pattern_classify_highest_score:
  "(\<exists>t. pattern_classify query = Inr t
        \<and> (\<forall>c. category_score c query \<le> category_score t query)
        \<and> ((\<forall>c. category_score c query = 0) \<longrightarrow> t = STATISTICS)
        \<and> ((\<exists>c. 0 < category_score c query)
             \<longrightarrow> (\<forall>c. category_score c query = category_score t query
                      \<longrightarrow> category_index t \<le> category_index c)))
   \<and> pattern_classify [] = Inr STATISTICS"
proof
  show "\<exists>t. pattern_classify query = Inr t
        \<and> (\<forall>c. category_score c query \<le> category_score t query)
        \<and> ((\<forall>c. category_score c query = 0) \<longrightarrow> t = STATISTICS)
        \<and> ((\<exists>c. 0 < category_score c query)
             \<longrightarrow> (\<forall>c. category_score c query = category_score t query
                      \<longrightarrow> category_index t \<le> category_index c))"
    using first_best_max [of "\<lambda>c. category_score c query"]
    by (intro exI conjI) (rule pattern_classify_cascade, assumption+)
  show "pattern_classify [] = Inr STATISTICS"
    by (simp add: pattern_classify_cascade category_score_empty first_best_def)
qed

theorem pattern_classify_highest_score_witness:
  "(\<exists>c. 0 < category_score c compare_trend_query)
   \<and> category_score COMPARISON compare_trend_query = category_score TREND compare_trend_query
   \<and> pattern_classify compare_trend_query = Inr TREND
   \<and> category_score TREND growth_rate_query = 2
   \<and> (\<forall>c. category_score c [] = 0)
   \<and> pattern_classify [] = Inr STATISTICS"
proof -
  obtain t where t: "pattern_classify compare_trend_query = Inr t"
    and mx: "\<forall>c. category_score c compare_trend_query \<le> category_score t compare_trend_query"
    and tie: "(\<exists>c. 0 < category_score c compare_trend_query)
             \<longrightarrow> (\<forall>c. category_score c compare_trend_query = category_score t compare_trend_query
                      \<longrightarrow> category_index t \<le> category_index c)"
    using pattern_classify_highest_score [of compare_trend_query] by blast
  have pos: "\<exists>c. 0 < category_score c compare_trend_query"
    by (rule exI [of _ TREND]) (simp add: compare_trend_scores)
  from mx have "1 \<le> category_score t compare_trend_query"
    using compare_trend_scores(1) by metis
  then have "category_score t compare_trend_query = 1"
    by (cases t) (simp_all add: compare_trend_scores)
  with tie pos compare_trend_scores(1) have "category_index t \<le> category_index TREND"
    by metis
  then have "t = TREND"
    by (cases t) simp_all
  with t pos pattern_classify_highest_score [of "[]"] show ?thesis
    by (simp add: compare_trend_scores category_score_empty growth_rate_score)
qed

lemma test_trend_scores:
  "category_score TREND test_trend_query = 2"
  "category_score COMPARISON test_trend_query = 0"
  "category_score RANKING test_trend_query = 0"
  "category_score STATISTICS test_trend_query = 0"
  "category_score PROPORTION test_trend_query = 0"
  by (simp_all add: score_eval regex_eval test_trend_query_def)

lemma test_comparison_scores:
  "category_score TREND test_comparison_query = 0"
  "category_score COMPARISON test_comparison_query = 1"
  "category_score RANKING test_comparison_query = 0"
  "category_score STATISTICS test_comparison_query = 0"
  "category_score PROPORTION test_comparison_query = 0"
  by (simp_all add: score_eval regex_eval test_comparison_query_def)

lemma test_ranking_scores:
  "category_score TREND test_ranking_query = 0"
  "category_score COMPARISON test_ranking_query = 0"
  "category_score RANKING test_ranking_query = 1"
  "category_score STATISTICS test_ranking_query = 0"
  "category_score PROPORTION test_ranking_query = 0"
  by (simp_all add: score_eval regex_eval test_ranking_query_def)

text \<open>The model of the classifier agrees with the assertions of the repository's test.\<close>

lemma repository_classification_test:
  "pattern_classify test_trend_query = Inr TREND"
  "pattern_classify test_comparison_query = Inr COMPARISON"
  "pattern_classify test_ranking_query = Inr RANKING"
  by (simp_all add: pattern_classify_cascade first_best_def test_trend_scores
        test_comparison_scores test_ranking_scores)

section \<open>Rounding to two decimals\<close>

lemma py_round2_hundredth: "py_round2 (of_int k / 100) = of_int k / 100"
  by (simp add: py_round2_def Let_def)

lemma py_round2_cases:
  obtains k where "py_round2 x = of_int k / 100"
    and "k = \<lfloor>x * 100\<rfloor> \<or> (k = \<lfloor>x * 100\<rfloor> + 1 \<and> 1 / 2 \<le> x * 100 - of_int \<lfloor>x * 100\<rfloor>)"
proof -
  define f where "f = \<lfloor>x * 100\<rfloor>"
  define d where "d = x * 100 - of_int f"
  define k where "k = (if d < 1 / 2 then f else if d > 1 / 2 then f + 1
                       else if even f then f else f + 1)"
  have 1: "py_round2 x = of_int k / 100"
    unfolding py_round2_def Let_def k_def d_def f_def by (rule refl)
  have 2: "k = f \<or> (k = f + 1 \<and> 1 / 2 \<le> d)"
    unfolding k_def by (cases "d < 1 / 2") auto
  from 1 2 that show thesis
    unfolding d_def f_def by blast
qed

lemma py_round2_idem: "py_round2 (py_round2 x) = py_round2 x"
proof -
  obtain k where "py_round2 x = of_int k / 100"
    by (rule py_round2_cases)
  then show ?thesis by (simp only: py_round2_hundredth)
qed

lemma py_round2_lower:
  assumes "of_int k0 / 100 \<le> x"
  shows "of_int k0 / 100 \<le> py_round2 x"
proof -
  from assms have "of_int k0 \<le> x * 100" by simp
  then have le: "k0 \<le> \<lfloor>x * 100\<rfloor>" by (simp only: le_floor_iff)
  obtain k where k: "py_round2 x = of_int k / 100"
    and "k = \<lfloor>x * 100\<rfloor> \<or> (k = \<lfloor>x * 100\<rfloor> + 1 \<and> 1 / 2 \<le> x * 100 - of_int \<lfloor>x * 100\<rfloor>)"
    by (rule py_round2_cases)
  with le have "k0 \<le> k" by linarith
  then have "(of_int k0 :: rat) \<le> of_int k" by simp
  then show ?thesis unfolding k by (simp only: divide_right_mono zero_le_numeral)
qed

lemma py_round2_upper:
  assumes "x \<le> of_int k0 / 100"
  shows "py_round2 x \<le> of_int k0 / 100"
proof -
  from assms have le: "x * 100 \<le> of_int k0" by simp
  have fl: "of_int \<lfloor>x * 100\<rfloor> \<le> x * 100" by (rule of_int_floor_le)
  obtain k where k: "py_round2 x = of_int k / 100"
    and c: "k = \<lfloor>x * 100\<rfloor> \<or> (k = \<lfloor>x * 100\<rfloor> + 1 \<and> 1 / 2 \<le> x * 100 - of_int \<lfloor>x * 100\<rfloor>)"
    by (rule py_round2_cases)
  have "k \<le> k0"
  proof (rule disjE [OF c])
    assume "k = \<lfloor>x * 100\<rfloor>"
    with le fl have "(of_int k :: rat) \<le> of_int k0" by linarith
    then show ?thesis by (simp only: of_int_le_iff)
  next
    assume a: "k = \<lfloor>x * 100\<rfloor> + 1 \<and> 1 / 2 \<le> x * 100 - of_int \<lfloor>x * 100\<rfloor>"
    with le have "(of_int \<lfloor>x * 100\<rfloor> :: rat) < of_int k0" by linarith
    then have "\<lfloor>x * 100\<rfloor> < k0" by (simp only: of_int_less_iff)
    with a show ?thesis by linarith
  qed
  then have "(of_int k :: rat) \<le> of_int k0" by simp
  then show ?thesis unfolding k by (simp only: divide_right_mono zero_le_numeral)
qed

lemma py_round2_range:
  assumes "0 \<le> x" "x \<le> 1"
  shows "0 \<le> py_round2 x \<and> py_round2 x \<le> 1"
  using py_round2_lower [of 0 x] py_round2_upper [of x 100] assms by simp


section \<open>Facts about the regular expressions\<close>

lemma imatch_chars: "imatch t s \<Longrightarrow> p \<in> set t \<Longrightarrow> \<exists>c \<in> set s. ieq p c"
  by (induction t s rule: imatch.induct) auto

lemma imatch_length: "imatch t s \<Longrightarrow> length t \<le> length s"
  by (induction t s rule: imatch.induct) auto

lemma match_seq_blocked:
  "list_ex (item_blocked chars) a \<Longrightarrow> set s \<subseteq> set chars \<Longrightarrow> match_seq a s = None"
proof (induction a s rule: match_seq.induct)
  case (1 s)
  then show ?case by simp
next
  case (2 t r s)
  show ?case
  proof (cases "imatch t s")
    case False
    then show ?thesis by simp
  next
    case True
    have "\<not> item_blocked chars (Str t)"
    proof
      assume "item_blocked chars (Str t)"
      then obtain p where "p \<in> set t" "\<forall>c \<in> set chars. \<not> ieq p c"
        by (auto simp: list_ex_iff list_all_iff)
      with imatch_chars [OF True] "2.prems"(2) show False by blast
    qed
    with "2.prems"(1) have "list_ex (item_blocked chars) r" by simp
    moreover have "set (drop (length t) s) \<subseteq> set chars"
      using "2.prems"(2) set_drop_subset by fastforce
    ultimately show ?thesis using "2.IH" True by simp
  qed
next
  case (3 cs r)
  then show ?case by simp
next
  case (4 cs r c s)
  show ?case
  proof (cases "list_ex (\<lambda>p. ieq p c) cs")
    case False
    then show ?thesis by simp
  next
    case True
    with "4.prems"(2) have "\<not> item_blocked chars (OneOf cs)"
      by (auto simp: list_ex_iff list_all_iff)
    with "4.prems" have "list_ex (item_blocked chars) r" "set s \<subseteq> set chars" by auto
    with "4.IH" True show ?thesis by simp
  qed
next
  case (5 r)
  then show ?case by simp
next
  case (6 r c s)
  from "6.prems" have r: "list_ex (item_blocked chars) r" by simp
  with "6.IH"(1) "6.prems"(2) have a: "match_seq r (c # s) = None" by simp
  from "6.prems" have "set s \<subseteq> set chars" by simp
  with "6.IH"(2) [OF a] "6.prems"(1) show ?case
    using a by simp
next
  case (7 r)
  then show ?case by simp
next
  case (8 r c s)
  show ?case
  proof (cases "is_digit c")
    case False
    then show ?thesis by simp
  next
    case True
    with "8.prems"(2) have "\<not> item_blocked chars Digits"
      by (auto simp: list_all_iff)
    with "8.prems" have r: "list_ex (item_blocked chars) r" and s: "set s \<subseteq> set chars"
      by auto
    from "8.IH"(1) [OF True "8.prems"(1) s] have a: "match_seq (Digits # r) s = None" .
    from "8.IH"(2) [OF True a r s] a True show ?thesis by simp
  qed
qed

lemma match_alts_blocked:
  "pattern_blocked chars p \<Longrightarrow> set s \<subseteq> set chars \<Longrightarrow> match_alts p s = None"
  by (induction p) (auto simp: pattern_blocked_def match_seq_blocked)

lemma findall_count_blocked:
  "pattern_blocked chars p \<Longrightarrow> set s \<subseteq> set chars \<Longrightarrow> findall_count p s = 0"
proof (induction s)
  case Nil
  then show ?case by (simp add: findall_count.simps match_alts_blocked)
next
  case (Cons c s)
  then have "match_alts p (c # s) = None" by (intro match_alts_blocked)
  with Cons show ?case by (subst findall_count.simps) simp
qed

lemma re_search_blocked:
  "pattern_blocked chars p \<Longrightarrow> set s \<subseteq> set chars \<Longrightarrow> re_search p s = None"
proof (induction s)
  case Nil
  then show ?case by (simp add: match_alts_blocked)
next
  case (Cons c s)
  then have "match_alts p (c # s) = None" by (intro match_alts_blocked)
  with Cons show ?case by simp
qed

lemma match_seq_length: "match_seq a s = Some rest \<Longrightarrow> length rest \<le> length s"
proof (induction a s arbitrary: rest rule: match_seq.induct)
  case (2 t r s)
  then show ?case by (fastforce split: if_splits)
next
  case (4 cs r c s)
  then show ?case by (fastforce split: if_splits)
next
  case (6 r c s)
  then show ?case by (fastforce split: option.splits if_splits)
next
  case (8 r c s)
  then show ?case by (fastforce split: option.splits if_splits)
qed simp_all

lemma match_seq_consumes:
  assumes "starts_with_text a" "match_seq a s = Some rest"
  shows "length rest < length s"
proof -
  from assms(1) obtain t r where a: "a = Str t # r" and t: "t \<noteq> []"
    by (cases a rule: starts_with_text.cases) auto
  from assms(2) a have im: "imatch t s" and m: "match_seq r (drop (length t) s) = Some rest"
    by (auto split: if_splits)
  from match_seq_length [OF m] have "length rest \<le> length s - length t" by simp
  moreover from imatch_length [OF im] t have "0 < length t" "length t \<le> length s" by auto
  ultimately show ?thesis by linarith
qed

lemma match_alts_consumes:
  "list_all starts_with_text p \<Longrightarrow> match_alts p s = Some rest \<Longrightarrow> length rest < length s"
  by (induction p) (auto split: option.splits dest: match_seq_consumes)

lemma re_search_nonempty:
  "list_all starts_with_text p \<Longrightarrow> re_search p s = Some m \<Longrightarrow> m \<noteq> []"
proof (induction s)
  case Nil
  then show ?case by (auto split: option.splits dest: match_alts_consumes)
next
  case (Cons c s)
  show ?case
  proof (cases "match_alts p (c # s)")
    case None
    with Cons show ?thesis by simp
  next
    case (Some rest)
    with Cons.prems(1) have "length rest < length (c # s)" by (rule match_alts_consumes)
    with Some Cons.prems(2) show ?thesis by auto
  qed
qed

lemma extract_time_range_from_nonempty:
  "list_all (list_all starts_with_text) ps \<Longrightarrow> extract_time_range_from ps query = Some m
   \<Longrightarrow> m \<noteq> []"
  by (induction ps) (auto split: option.splits dest: re_search_nonempty)

lemma extract_time_range_nonempty: "extract_time_range query \<noteq> Some []"
proof
  assume "extract_time_range query = Some []"
  moreover have "list_all (list_all starts_with_text) time_patterns"
    by (simp add: time_patterns_def)
  ultimately show False
    unfolding extract_time_range_def by (blast dest: extract_time_range_from_nonempty)
qed

section \<open>Properties of the confidence score\<close>

lemma type_patterns_of:
  "(case map_of query_patterns (QueryType_value qt) of Some ps \<Rightarrow> ps | None \<Rightarrow> []) =
     (case qt of TREND \<Rightarrow> patterns_trend | COMPARISON \<Rightarrow> patterns_comparison
      | RANKING \<Rightarrow> patterns_ranking | STATISTICS \<Rightarrow> patterns_statistics
      | PROPORTION \<Rightarrow> patterns_proportion)"
  by (cases qt) (simp_all add: query_patterns_def)

lemma type_patterns_length:
  "length patterns_trend = 4" "length patterns_comparison = 4" "length patterns_ranking = 4"
  "length patterns_statistics = 4" "length patterns_proportion = 3"
  by (simp_all add: patterns_trend_def patterns_comparison_def patterns_ranking_def
        patterns_statistics_def patterns_proportion_def)

lemma type_confidence_eq:
  "type_confidence query qt =
     (let ps = (case qt of TREND \<Rightarrow> patterns_trend | COMPARISON \<Rightarrow> patterns_comparison
                | RANKING \<Rightarrow> patterns_ranking | STATISTICS \<Rightarrow> patterns_statistics
                | PROPORTION \<Rightarrow> patterns_proportion)
      in min (of_nat (length (filter (\<lambda>pattern. re_search pattern query \<noteq> None) ps))
              / of_nat (length ps)) 1)"
proof -
  have "length (case qt of TREND \<Rightarrow> patterns_trend | COMPARISON \<Rightarrow> patterns_comparison
                | RANKING \<Rightarrow> patterns_ranking | STATISTICS \<Rightarrow> patterns_statistics
                | PROPORTION \<Rightarrow> patterns_proportion) \<noteq> 0"
    by (cases qt) (simp_all add: type_patterns_length)
  then show ?thesis
    unfolding type_confidence_def type_patterns_of Let_def by simp
qed

lemma type_confidence_range: "0 \<le> type_confidence query qt \<and> type_confidence query qt \<le> 1"
  unfolding type_confidence_eq Let_def by simp

lemma type_confidence_positive:
  assumes "0 < type_confidence query qt"
  shows "1 / 4 \<le> type_confidence query qt"
proof -
  define ps where "ps = (case qt of TREND \<Rightarrow> patterns_trend | COMPARISON \<Rightarrow> patterns_comparison
                | RANKING \<Rightarrow> patterns_ranking | STATISTICS \<Rightarrow> patterns_statistics
                | PROPORTION \<Rightarrow> patterns_proportion)"
  define n where "n = length (filter (\<lambda>pattern. re_search pattern query \<noteq> None) ps)"
  have tc: "type_confidence query qt = min (of_nat n / of_nat (length ps)) 1"
    unfolding type_confidence_eq Let_def n_def ps_def by (rule refl)
  have len: "length ps = 4 \<or> length ps = 3"
    unfolding ps_def by (cases qt) (simp_all add: type_patterns_length)
  from assms tc have "0 < (of_nat n :: rat) / of_nat (length ps)" by simp
  with len have "n \<noteq> 0" by (cases "n = 0") auto
  then have "1 \<le> (of_nat n :: rat)" by simp
  with len have "1 / 4 \<le> (of_nat n :: rat) / of_nat (length ps)" by auto
  then show ?thesis unfolding tc by simp
qed

lemma type_confidence_blocked:
  assumes "set query \<subseteq> set chars"
    and "list_all (pattern_blocked chars)
           (case qt of TREND \<Rightarrow> patterns_trend | COMPARISON \<Rightarrow> patterns_comparison
            | RANKING \<Rightarrow> patterns_ranking | STATISTICS \<Rightarrow> patterns_statistics
            | PROPORTION \<Rightarrow> patterns_proportion)"
  shows "type_confidence query qt = 0"
proof -
  have "filter (\<lambda>pattern. re_search pattern query \<noteq> None) ps = []"
    if "list_all (pattern_blocked chars) ps" for ps
    using that assms(1) by (induction ps) (auto simp: re_search_blocked)
  with assms(2) show ?thesis
    unfolding type_confidence_eq Let_def by simp
qed

lemma entity_score_range: "0 \<le> entity_score ents"
  by (simp add: entity_score_def)

lemma time_confidence_range: "0 \<le> time_confidence tr"
  by (simp add: time_confidence_def)

lemma clarity_range: "0 \<le> clarity xs"
  by (simp add: clarity_def)

lemma clarity_nonempty: "xs \<noteq> [] \<Longrightarrow> clarity xs = 1"
  by (cases xs) (simp_all add: clarity_def)

lemma bonus_points_range: "0 \<le> bonus_points query"
  by (simp add: bonus_points_def Let_def)

lemma bonus_points_some:
  "(10 \<le> length (py_strip query) \<and> length (py_strip query) \<le> 100)
   \<or> 2 \<le> length (filter (\<lambda>kw. str_in kw query) business_keywords)
   \<Longrightarrow> 5 / 100 \<le> bonus_points query"
  by (auto simp: bonus_points_def Let_def)

lemma confidence_range:
  "0 \<le> calculate_enhanced_confidence query qt ents tr dims mets
   \<and> calculate_enhanced_confidence query qt ents tr dims mets \<le> 1"
proof -
  have "0 \<le> type_confidence query qt * (3 / 10) + entity_score ents * (2 / 10)
            + time_confidence tr * (2 / 10) + clarity dims * (15 / 100)
            + clarity mets * (15 / 100) + bonus_points query"
    using type_confidence_range [of query qt] entity_score_range [of ents]
      time_confidence_range [of tr] clarity_range [of dims] clarity_range [of mets]
      bonus_points_range [of query]
    by simp
  then show ?thesis
    unfolding calculate_enhanced_confidence_def Let_def
    by (intro py_round2_range) simp_all
qed

lemma confidence_rounded:
  "py_round2 (calculate_enhanced_confidence query qt ents tr dims mets)
     = calculate_enhanced_confidence query qt ents tr dims mets"
  unfolding calculate_enhanced_confidence_def Let_def by (rule py_round2_idem)

lemma local_parse_intent_eq:
  "local_parse_intent query base_type base_confidence =
     Inr \<lparr>query_type = base_type, entities = extract_entities query,
          time_range = extract_time_range query,
          dimensions = fst (extract_dimensions_metrics query),
          metrics = snd (extract_dimensions_metrics query),
          filters = extract_filters query,
          confidence = calculate_enhanced_confidence query base_type (extract_entities query)
            (extract_time_range query) (fst (extract_dimensions_metrics query))
            (snd (extract_dimensions_metrics query))\<rparr>"
  using confidence_range [of query base_type "extract_entities query" "extract_time_range query"
      "fst (extract_dimensions_metrics query)" "snd (extract_dimensions_metrics query)"]
  by (simp add: local_parse_intent_def new_QueryIntent_def Let_def split_beta)

text \<open>
  C3. Every intent that the local stage produces, for any text, has a confidence between
  0 and 1 that is its own rounding to two decimals: the weighted sum with the bonuses is
  non-negative, it is cut at 1 and then rounded, and the constructor's range check never
  fails. (Floats are modelled by exact rationals.)
\<close>

theorem local_confidence_clamped_and_rounded:
  "\<exists>intent. local_parse_intent query base_type base_confidence = Inr intent
      \<and> 0 \<le> confidence intent \<and> confidence intent \<le> 1
      \<and> py_round2 (confidence intent) = confidence intent"
  unfolding local_parse_intent_eq
  using confidence_range confidence_rounded by simp

lemma rich_confidence:
  assumes "3 \<le> length ents" "tr = Some m" "m \<noteq> []" "dims \<noteq> []" "mets \<noteq> []"
  shows "68 / 100 \<le> calculate_enhanced_confidence query qt ents tr dims mets"
    and "0 < type_confidence query qt
         \<or> (10 \<le> length (py_strip query) \<and> length (py_strip query) \<le> 100)
         \<or> 2 \<le> length (filter (\<lambda>kw. str_in kw query) business_keywords)
         \<Longrightarrow> 7 / 10 \<le> calculate_enhanced_confidence query qt ents tr dims mets"
proof -
  define w where "w = type_confidence query qt * (3 / 10) + entity_score ents * (2 / 10)
            + time_confidence tr * (2 / 10) + clarity dims * (15 / 100)
            + clarity mets * (15 / 100) + bonus_points query"
  have c: "calculate_enhanced_confidence query qt ents tr dims mets = py_round2 (min w 1)"
    unfolding calculate_enhanced_confidence_def Let_def w_def by (rule refl)
  have w: "w = 68 / 100 + type_confidence query qt * (3 / 10) + bonus_points query"
    unfolding w_def using assms
    by (simp add: entity_score_def time_confidence_def clarity_nonempty)
  have "of_int 68 / 100 \<le> min w 1"
    using w type_confidence_range [of query qt] bonus_points_range [of query] by simp
  then have "of_int 68 / 100 \<le> py_round2 (min w 1)" by (rule py_round2_lower)
  then show "68 / 100 \<le> calculate_enhanced_confidence query qt ents tr dims mets"
    unfolding c by simp
  assume "0 < type_confidence query qt
         \<or> (10 \<le> length (py_strip query) \<and> length (py_strip query) \<le> 100)
         \<or> 2 \<le> length (filter (\<lambda>kw. str_in kw query) business_keywords)"
  then have "2 / 100 \<le> type_confidence query qt * (3 / 10) + bonus_points query"
  proof
    assume "0 < type_confidence query qt"
    then have "1 / 4 \<le> type_confidence query qt" by (rule type_confidence_positive)
    with bonus_points_range [of query] show ?thesis by simp
  next
    assume "(10 \<le> length (py_strip query) \<and> length (py_strip query) \<le> 100)
         \<or> 2 \<le> length (filter (\<lambda>kw. str_in kw query) business_keywords)"
    then have "5 / 100 \<le> bonus_points query" by (rule bonus_points_some)
    with type_confidence_range [of query qt] show ?thesis by simp
  qed
  with w have "of_int 70 / 100 \<le> min w 1" by simp
  then have "of_int 70 / 100 \<le> py_round2 (min w 1)" by (rule py_round2_lower)
  then show "7 / 10 \<le> calculate_enhanced_confidence query qt ents tr dims mets"
    unfolding c by simp
qed

text \<open>
  C5. A locally scored query with at least 3 entities, an extracted time range, at least
  one dimension and at least one metric is claimed to score at least 0.7. The weighted
  sum of these four factors is 0.68, so the claim fails when no pattern of the category
  matches and no bonus applies (the padded query evaluated below is such a query). What holds: the confidence is at least 0.68, and at least 0.7 as soon as a
  pattern of the category matches, or the stripped query has between 10 and 100
  characters, or at least two business keywords occur.
\<close>

theorem rich_query_confidence_bound:
  assumes "local_parse_intent query base_type base_confidence = Inr intent"
    and "3 \<le> length (entities intent)" and "time_range intent \<noteq> None"
    and "dimensions intent \<noteq> []" and "metrics intent \<noteq> []"
  shows "68 / 100 \<le> confidence intent
     \<and> (0 < type_confidence query base_type
         \<or> (10 \<le> length (py_strip query) \<and> length (py_strip query) \<le> 100)
         \<or> 2 \<le> length (filter (\<lambda>kw. str_in kw query) business_keywords)
        \<longrightarrow> 7 / 10 \<le> confidence intent)"
proof -
  from assms(1) have i: "intent = \<lparr>query_type = base_type, entities = extract_entities query,
          time_range = extract_time_range query,
          dimensions = fst (extract_dimensions_metrics query),
          metrics = snd (extract_dimensions_metrics query),
          filters = extract_filters query,
          confidence = calculate_enhanced_confidence query base_type (extract_entities query)
            (extract_time_range query) (fst (extract_dimensions_metrics query))
            (snd (extract_dimensions_metrics query))\<rparr>"
    unfolding local_parse_intent_eq by simp
  from assms(3) i obtain m where tr: "extract_time_range query = Some m" by auto
  with extract_time_range_nonempty [of query] have m: "m \<noteq> []" by auto
  from assms(2,4,5) i have h: "3 \<le> length (extract_entities query)"
    "fst (extract_dimensions_metrics query) \<noteq> []" "snd (extract_dimensions_metrics query) \<noteq> []"
    by simp_all
  from rich_confidence [OF h(1) tr m h(2) h(3), of query base_type] show ?thesis
    by (subst (1 2) i) simp
qed


section \<open>Two queries evaluated\<close>

lemma sublist_snoc_avoid:
  assumes "kw \<noteq> []" "x \<notin> set kw"
  shows "sublist kw (v @ [x]) = sublist kw v"
proof
  assume "sublist kw (v @ [x])"
  then obtain ps ss where eq: "v @ [x] = ps @ kw @ ss" by (auto simp: sublist_def)
  show "sublist kw v"
  proof (cases ss rule: rev_cases)
    case Nil
    with eq have "v @ [x] = ps @ kw" by simp
    with assms(1) have "last kw = x" by (metis last_appendR snoc_eq_iff_butlast)
    with assms show ?thesis using last_in_set by blast
  next
    case (snoc ss' y)
    with eq have "v @ [x] = (ps @ kw @ ss') @ [y]" by simp
    then have "v = ps @ kw @ ss'" by (simp only: append1_eq_conv)
    then show ?thesis by (auto simp: sublist_def)
  qed
next
  assume "sublist kw v"
  then obtain ps ss where "v = ps @ kw @ ss" by (auto simp: sublist_def)
  then have "v @ [x] = ps @ kw @ (ss @ [x])" by simp
  then show "sublist kw (v @ [x])" unfolding sublist_def by blast
qed

lemma sublist_pad:
  "kw \<noteq> [] \<Longrightarrow> x \<notin> set kw \<Longrightarrow> sublist kw (u @ replicate n x) = sublist kw u"
proof (induction n)
  case 0
  show ?case by simp
next
  case (Suc n)
  have "u @ replicate (Suc n) x = (u @ replicate n x) @ [x]"
    by (simp add: replicate_append_same)
  then have "sublist kw (u @ replicate (Suc n) x) = sublist kw (u @ replicate n x)"
    using sublist_snoc_avoid [OF Suc.prems, of "u @ replicate n x"] by (simp only:)
  with Suc show ?case by simp
qed

lemma py_strip_id:
  assumes "s \<noteq> []" "\<not> py_isspace (hd s)" "\<not> py_isspace (last s)"
  shows "py_strip s = s"
proof -
  from assms(1,2) have 1: "dropWhile py_isspace s = s" by (cases s) simp_all
  from assms(1,3) have 2: "dropWhile py_isspace (rev s) = rev s"
    by (cases s rule: rev_cases) simp_all
  show ?thesis unfolding py_strip_def 1 2 by simp
qed

lemmas extract_eval =
  extract_entities_def business_entities_def business_metrics_def
  extract_dimensions_metrics_def dimension_words_def metric_words_def extract_filters_def
  business_keywords_def sublist_code

lemmas blocked_eval =
  pattern_blocked_def padded_chars_def ieq_def re_lower_def lower_cp_def is_digit_def

lemma today_subset: "set today_query \<subseteq> set padded_chars"
  by (simp add: today_query_def padded_chars_def)

lemma padded_subset: "set padded_query \<subseteq> set padded_chars"
  by (auto simp: padded_query_def today_query_def padded_chars_def)

lemma statistics_blocked: "list_all (pattern_blocked padded_chars) patterns_statistics"
  by (simp add: patterns_statistics_def blocked_eval)

lemma trend_blocked: "list_all (pattern_blocked padded_chars) patterns_trend"
  by (simp add: patterns_trend_def blocked_eval)

lemma comparison_blocked: "list_all (pattern_blocked padded_chars) patterns_comparison"
  by (simp add: patterns_comparison_def blocked_eval)

lemma ranking_blocked: "list_all (pattern_blocked padded_chars) patterns_ranking"
  by (simp add: patterns_ranking_def blocked_eval)

lemma proportion_blocked: "list_all (pattern_blocked padded_chars) patterns_proportion"
  by (simp add: patterns_proportion_def blocked_eval)

lemma today_entities:
  "extract_entities today_query = [[0x5546, 0x54C1], [0x7528, 0x6237], [0x6536, 0x5165]]"
  by (simp add: extract_eval today_query_def)

lemma today_dimensions_metrics:
  "extract_dimensions_metrics today_query = ([[0x6E20, 0x9053]], [[0x6536, 0x5165]])"
  by (simp add: extract_eval today_query_def)

lemma today_filters: "extract_filters today_query = []"
  by (simp add: extract_eval today_query_def)

lemma today_keywords: "filter (\<lambda>kw. str_in kw today_query) business_keywords = []"
  by (simp add: extract_eval today_query_def)

lemma today_time_range: "extract_time_range today_query = Some (S ''today'')"
  by (simp add: extract_time_range_def time_patterns_def today_query_def regex_eval)

lemma today_type_confidence: "type_confidence today_query STATISTICS = 0"
  by (rule type_confidence_blocked [OF today_subset]) (simp add: statistics_blocked)

lemma today_bonus: "bonus_points today_query = 5 / 100"
  by (simp add: bonus_points_def today_keywords Let_def)
     (simp add: today_query_def py_strip_def py_isspace_def)

lemma today_local_parse:
  "local_parse_intent today_query STATISTICS base_confidence =
     Inr \<lparr>query_type = STATISTICS,
          entities = [[0x5546, 0x54C1], [0x7528, 0x6237], [0x6536, 0x5165]],
          time_range = Some (S ''today''),
          dimensions = [[0x6E20, 0x9053]], metrics = [[0x6536, 0x5165]],
          filters = [], confidence = 73 / 100\<rparr>"
  unfolding local_parse_intent_eq today_entities today_dimensions_metrics today_filters
    today_time_range
  by (simp add: calculate_enhanced_confidence_def today_type_confidence today_bonus
        entity_score_def time_confidence_def clarity_def py_round2_def Let_def)

lemma filter_pad:
  assumes "\<forall>kw \<in> set kws. kw \<noteq> [] \<and> x \<notin> set kw"
  shows "filter (\<lambda>kw. str_in kw (u @ replicate n x)) kws = filter (\<lambda>kw. str_in kw u) kws"
  using assms by (intro filter_cong refl) (simp add: sublist_pad)

lemma find_pad:
  assumes "\<forall>kw \<in> set kws. kw \<noteq> [] \<and> x \<notin> set kw"
  shows "find (\<lambda>kw. str_in kw (u @ replicate n x)) kws = find (\<lambda>kw. str_in kw u) kws"
  using assms by (induction kws) (simp_all add: sublist_pad)

lemma keyword_tables_avoid_x:
  "\<forall>(category, kws) \<in> set business_entities. \<forall>kw \<in> set kws. kw \<noteq> [] \<and> 120 \<notin> set kw"
  "\<forall>kw \<in> set business_metrics. kw \<noteq> [] \<and> 120 \<notin> set kw"
  "\<forall>kw \<in> set dimension_words. kw \<noteq> [] \<and> 120 \<notin> set kw"
  "\<forall>kw \<in> set metric_words. kw \<noteq> [] \<and> 120 \<notin> set kw"
  "\<forall>kw \<in> set business_keywords. kw \<noteq> [] \<and> 120 \<notin> set kw"
  by (simp_all add: business_entities_def business_metrics_def dimension_words_def
        metric_words_def business_keywords_def)

lemma padded_entities: "extract_entities padded_query = extract_entities today_query"
proof -
  have "map (\<lambda>(category, keywords).
               case find (\<lambda>keyword. str_in keyword (today_query @ replicate 90 120)) keywords of
                 Some keyword \<Rightarrow> [keyword] | None \<Rightarrow> []) business_entities
        = map (\<lambda>(category, keywords).
               case find (\<lambda>keyword. str_in keyword today_query) keywords of
                 Some keyword \<Rightarrow> [keyword] | None \<Rightarrow> []) business_entities"
    using keyword_tables_avoid_x(1)
    by (intro map_cong refl) (auto simp: find_pad)
  then show ?thesis
    unfolding padded_query_def extract_entities_def Let_def
    by (simp only: filter_pad [OF keyword_tables_avoid_x(2)])
qed

lemma padded_dimensions_metrics:
  "extract_dimensions_metrics padded_query = extract_dimensions_metrics today_query"
  unfolding padded_query_def extract_dimensions_metrics_def
  by (simp only: filter_pad [OF keyword_tables_avoid_x(3)]
        filter_pad [OF keyword_tables_avoid_x(4)])

lemma padded_filters: "extract_filters padded_query = extract_filters today_query"
  unfolding padded_query_def extract_filters_def
  by (simp add: sublist_pad)

lemma padded_keywords:
  "filter (\<lambda>kw. str_in kw padded_query) business_keywords
     = filter (\<lambda>kw. str_in kw today_query) business_keywords"
  unfolding padded_query_def
  by (rule filter_pad [OF keyword_tables_avoid_x(5)])

lemma padded_time_range: "extract_time_range padded_query = Some (S ''today'')"
proof -
  have 1: "re_search [[Str (S ''past ''), Digits, Str (S '' month'')]] padded_query = None"
    by (rule re_search_blocked [OF _ padded_subset]) (simp add: blocked_eval)
  have 2: "re_search [[Str (S ''last ''), Digits, Str (S '' month'')]] padded_query = None"
    by (rule re_search_blocked [OF _ padded_subset]) (simp add: blocked_eval)
  have 3: "re_search [[Str (S ''recent ''), Digits, Str (S '' month'')]] padded_query = None"
    by (rule re_search_blocked [OF _ padded_subset]) (simp add: blocked_eval)
  have 4: "re_search [[Str (S ''today'')]] (today_query @ rest) = Some (S ''today'')" for rest
    by (simp add: today_query_def regex_eval)
  show ?thesis
    unfolding extract_time_range_def time_patterns_def
    by (simp only: extract_time_range_from.simps 1 2 3 4 [of "replicate 90 120", folded padded_query_def]
          option.case)
qed

lemma padded_type_confidence: "type_confidence padded_query STATISTICS = 0"
  by (rule type_confidence_blocked [OF padded_subset]) (simp add: statistics_blocked)

lemma padded_strip: "py_strip padded_query = padded_query"
  by (rule py_strip_id) (simp_all add: padded_query_def today_query_def py_isspace_def)

lemma padded_length: "length padded_query = 103"
  by (simp add: padded_query_def today_query_def)

lemma padded_bonus: "bonus_points padded_query = 0"
  by (simp add: bonus_points_def padded_keywords today_keywords padded_strip padded_length
        Let_def)

lemma padded_local_parse:
  "local_parse_intent padded_query STATISTICS base_confidence =
     Inr \<lparr>query_type = STATISTICS,
          entities = [[0x5546, 0x54C1], [0x7528, 0x6237], [0x6536, 0x5165]],
          time_range = Some (S ''today''),
          dimensions = [[0x6E20, 0x9053]], metrics = [[0x6536, 0x5165]],
          filters = [], confidence = 17 / 25\<rparr>"
  unfolding local_parse_intent_eq padded_entities padded_dimensions_metrics padded_filters
    padded_time_range today_entities today_dimensions_metrics today_filters
  by (simp add: calculate_enhanced_confidence_def padded_type_confidence padded_bonus
        entity_score_def time_confidence_def clarity_def py_round2_def Let_def)

lemma blocked_scores:
  "list_all (pattern_blocked chars) ps \<Longrightarrow> set query \<subseteq> set chars
   \<Longrightarrow> sum_list (map (\<lambda>pattern. findall_count pattern query) ps) = 0"
  by (induction ps) (auto simp: findall_count_blocked)

lemma padded_scores: "category_score c padded_query = 0"
  unfolding category_score_def type_patterns_of
  by (cases c)
     (simp_all add: blocked_scores [OF _ padded_subset] trend_blocked comparison_blocked
        ranking_blocked statistics_blocked proportion_blocked)

lemma padded_classify: "pattern_classify padded_query = Inr STATISTICS"
  by (simp add: pattern_classify_cascade padded_scores first_best_def)

section \<open>The call counter of the external refiner\<close>

lemma should_use_openai_iff:
  "should_use_openai key st \<longleftrightarrow>
     api_call_count st < 1000 \<and> key \<noteq> [] \<and> key \<noteq> S ''test_key_placeholder''"
  by (auto simp: should_use_openai_def Let_def)

lemma pattern_classify_total: "\<exists>t. pattern_classify query = Inr t"
  by (simp add: pattern_classify_cascade)

lemma parse_query_intent_local:
  assumes "\<not> (use_openai \<and> should_use_openai key st)"
    and "pattern_classify (preprocess_query natural_query) = Inr base_type"
  shows "parse_query_intent key openai start_time now st natural_query use_openai
         = (case local_parse_intent (preprocess_query natural_query) base_type (6 / 10) of
              Inl e \<Rightarrow> Inl (intent_parsing_error e) | Inr intent \<Rightarrow> Inr intent, st)"
  using assms
  by (auto simp: parse_query_intent_def Let_def split: sum.splits)

text \<open>
  At the ceiling of 1000 counted calls, or without a configured key, no request is issued:
  the state is unchanged and the result is the local computation.
\<close>

lemma gated_call_not_issued:
  assumes "1000 \<le> api_call_count st \<or> key = [] \<or> key = S ''test_key_placeholder''"
  shows "snd (parse_query_intent key openai start_time now st natural_query use_openai) = st"
proof -
  obtain base_type where b: "pattern_classify (preprocess_query natural_query) = Inr base_type"
    using pattern_classify_total by blast
  from assms have "\<not> (use_openai \<and> should_use_openai key st)"
    by (auto simp: should_use_openai_iff)
  from parse_query_intent_local [OF this b] show ?thesis
    by (simp split: sum.splits)
qed

text \<open>A request that succeeds is counted; a request that raises is issued but not counted.\<close>

lemma attempted_call_state:
  assumes "use_openai" "should_use_openai key st"
    and "pattern_classify (preprocess_query natural_query) = Inr base_type"
  shows "snd (parse_query_intent key openai start_time now st natural_query use_openai) =
           (case openai (preprocess_query natural_query) base_type of
              Inr intent \<Rightarrow>
                track_api_usage start_time now (st\<lparr>requests_issued := requests_issued st + 1\<rparr>)
            | Inl e \<Rightarrow> st\<lparr>requests_issued := requests_issued st + 1\<rparr>)"
  using assms
  by (simp add: parse_query_intent_def Let_def local_parse_intent_eq split: sum.splits)

text \<open>
  C9. The call counter is to be incremented on every attempted call, whether it succeeds
  or fails, and no call is to be made at the ceiling or without credentials. The second
  half holds (lemma \<open>gated_call_not_issued\<close>). The first does not: the counter is
  incremented after the awaited call, inside the \<open>try\<close> block, so a call that raises skips
  it. Below, a processor with a configured key and no call so far sends one request, the
  request times out, and the counter is still 0.
\<close>

theorem failed_call_not_counted:
  "should_use_openai configured_key fresh_state
   \<and> snd (parse_query_intent configured_key failing_service 0 1 fresh_state
            compare_trend_query True)
       = \<lparr>api_call_count = 0, api_cost_tracking = [], requests_issued = 1\<rparr>"
proof -
  have u: "should_use_openai configured_key fresh_state"
    by (simp add: should_use_openai_iff fresh_state_def configured_key_def)
  obtain base_type
    where b: "pattern_classify (preprocess_query compare_trend_query) = Inr base_type"
    using pattern_classify_total by blast
  from attempted_call_state [OF _ u b, of True failing_service 0 1] u show ?thesis
    by (simp add: failing_service_def fresh_state_def)
qed

section \<open>A rich query below 0.7\<close>

lemma collapse_whitespace_id:
  "\<forall>c \<in> set s. \<not> py_isspace c \<Longrightarrow> collapse_whitespace s = s"
  by (induction s) simp_all

lemma str_replace_absent:
  "old \<noteq> [] \<Longrightarrow> \<not> sublist old s \<Longrightarrow> str_replace s old new = s"
proof (induction s)
  case Nil
  then show ?case by (simp add: str_replace.simps)
next
  case (Cons c s)
  from Cons.prems have "\<not> prefix old (c # s)" "\<not> sublist old s"
    by (simp_all add: sublist_Cons_right)
  with Cons show ?case by (subst str_replace.simps) simp
qed

lemma time_mappings_absent:
  "\<forall>(chinese, english) \<in> set time_mappings. chinese \<noteq> [] \<and> \<not> sublist chinese padded_query"
  unfolding padded_query_def time_mappings_def
  by (simp add: sublist_pad) (simp add: today_query_def sublist_code)

lemma foldl_replace_absent:
  "\<forall>(old, new) \<in> set ms. old \<noteq> [] \<and> \<not> sublist old s
   \<Longrightarrow> foldl (\<lambda>q (old, new). str_replace q old new) s ms = s"
  by (induction ms) (auto simp: str_replace_absent)

lemma padded_preprocess: "preprocess_query padded_query = padded_query"
proof -
  have ws: "\<forall>c \<in> set padded_query. \<not> py_isspace c"
    using padded_subset by (auto simp: padded_chars_def py_isspace_def)
  have pu: "filter (\<lambda>c. c \<notin> set punctuation) padded_query = padded_query"
    using padded_subset by (auto simp: padded_chars_def punctuation_def filter_id_conv)
  show ?thesis
    unfolding preprocess_query_def Let_def padded_strip collapse_whitespace_id [OF ws] pu
    by (rule foldl_replace_absent [OF time_mappings_absent])
qed

lemma padded_parse_query_intent:
  "parse_query_intent configured_key failing_service 0 1 fresh_state padded_query False =
     (Inr \<lparr>query_type = STATISTICS,
           entities = [[0x5546, 0x54C1], [0x7528, 0x6237], [0x6536, 0x5165]],
           time_range = Some (S ''today''),
           dimensions = [[0x6E20, 0x9053]], metrics = [[0x6536, 0x5165]],
           filters = [], confidence = 17 / 25\<rparr>, fresh_state)"
  by (simp add: parse_query_intent_local [where base_type = STATISTICS] padded_preprocess
        padded_classify padded_local_parse)

text \<open>
  The padded query has three entities, the time range \<open>today\<close>, one dimension and one
  metric; no pattern of any category matches it, it is 103 characters long and contains
  no business keyword. Preprocessing leaves it as it is. Its confidence is 0.68, from
  \<open>local_parse_intent\<close> and from \<open>parse_query_intent\<close> without the external refiner.
\<close>

theorem rich_query_below_threshold:
  "pattern_classify padded_query = Inr STATISTICS
   \<and> local_parse_intent padded_query STATISTICS (6 / 10) =
       Inr \<lparr>query_type = STATISTICS,
            entities = [[0x5546, 0x54C1], [0x7528, 0x6237], [0x6536, 0x5165]],
            time_range = Some (S ''today''),
            dimensions = [[0x6E20, 0x9053]], metrics = [[0x6536, 0x5165]],
            filters = [], confidence = 17 / 25\<rparr>
   \<and> parse_query_intent configured_key failing_service 0 1 fresh_state padded_query False =
       (Inr \<lparr>query_type = STATISTICS,
             entities = [[0x5546, 0x54C1], [0x7528, 0x6237], [0x6536, 0x5165]],
             time_range = Some (S ''today''),
             dimensions = [[0x6E20, 0x9053]], metrics = [[0x6536, 0x5165]],
             filters = [], confidence = 17 / 25\<rparr>, fresh_state)
   \<and> (17 / 25 :: rat) < 7 / 10"
  by (simp add: padded_classify padded_local_parse padded_parse_query_intent)

theorem rich_query_confidence_bound_witness:
  "local_parse_intent padded_query STATISTICS (6 / 10) =
       Inr \<lparr>query_type = STATISTICS,
            entities = [[0x5546, 0x54C1], [0x7528, 0x6237], [0x6536, 0x5165]],
            time_range = Some (S ''today''),
            dimensions = [[0x6E20, 0x9053]], metrics = [[0x6536, 0x5165]],
            filters = [], confidence = 17 / 25\<rparr>
   \<and> (68 / 100 :: rat) \<le> 17 / 25
   \<and> local_parse_intent today_query STATISTICS (6 / 10) =
       Inr \<lparr>query_type = STATISTICS,
            entities = [[0x5546, 0x54C1], [0x7528, 0x6237], [0x6536, 0x5165]],
            time_range = Some (S ''today''),
            dimensions = [[0x6E20, 0x9053]], metrics = [[0x6536, 0x5165]],
            filters = [], confidence = 73 / 100\<rparr>
   \<and> 10 \<le> length (py_strip today_query) \<and> length (py_strip today_query) \<le> 100
   \<and> (7 / 10 :: rat) \<le> 73 / 100"
proof -
  have len: "10 \<le> length (py_strip today_query) \<and> length (py_strip today_query) \<le> 100"
    by (simp add: today_query_def py_strip_def py_isspace_def)
  from rich_query_confidence_bound [OF padded_local_parse [of "6 / 10"]]
  have a: "(68 / 100 :: rat) \<le> 17 / 25" by simp
  from rich_query_confidence_bound [OF today_local_parse [of "6 / 10"]] len
  have b: "(7 / 10 :: rat) \<le> 73 / 100" by simp
  from a b len padded_local_parse [of "6 / 10"] today_local_parse [of "6 / 10"]
  show ?thesis by blast
qed

theorem local_confidence_clamped_and_rounded_witness:
  "local_parse_intent today_query STATISTICS (6 / 10) =
       Inr \<lparr>query_type = STATISTICS,
            entities = [[0x5546, 0x54C1], [0x7528, 0x6237], [0x6536, 0x5165]],
            time_range = Some (S ''today''),
            dimensions = [[0x6E20, 0x9053]], metrics = [[0x6536, 0x5165]],
            filters = [], confidence = 73 / 100\<rparr>
   \<and> (0 :: rat) \<le> 73 / 100 \<and> (73 / 100 :: rat) \<le> 1 \<and> py_round2 (73 / 100) = 73 / 100"
proof -
  from local_confidence_clamped_and_rounded [of today_query STATISTICS "6 / 10"]
  have "(0 :: rat) \<le> 73 / 100 \<and> (73 / 100 :: rat) \<le> 1 \<and> py_round2 (73 / 100) = 73 / 100"
    unfolding today_local_parse by simp
  with today_local_parse [of "6 / 10"] show ?thesis by blast
qed

end
